theory Spec2Isabelle
  imports Main "HOL-Library.Word" "HOL-Library.AList"
begin

section \<open>Static types (runtime/interpreter/statictype.go)\<close>

text \<open>
  \<open>common.TypeID\<close> is a string.  A \<open>common.Location\<close> is an interface value that
  may be nil; it is only stored and compared with \<open>==\<close>, so a location is an optional
  name here.
\<close>

type_synonym type_id = string
type_synonym location = "string option"

text \<open>
  \<open>PrimitiveStaticType\<close> is a closed enumeration declared outside the files at hand.
  The kinds that \<open>maybeConvertStaticType\<close> names are constructors of their own; every
  other kind (Int, String, AnyStruct, ...) is \<open>PrimitiveStaticTypeOther\<close> with its
  enumeration value.
\<close>

datatype primitive_static_type =
    PrimitiveStaticTypePublicAccount
  | PrimitiveStaticTypeAuthAccount
  | PrimitiveStaticTypeAuthAccountCapabilities
  | PrimitiveStaticTypePublicAccountCapabilities
  | PrimitiveStaticTypeAuthAccountAccountCapabilities
  | PrimitiveStaticTypeAuthAccountStorageCapabilities
  | PrimitiveStaticTypeAuthAccountContracts
  | PrimitiveStaticTypePublicAccountContracts
  | PrimitiveStaticTypeAuthAccountKeys
  | PrimitiveStaticTypePublicAccountKeys
  | PrimitiveStaticTypeAuthAccountInbox
  | PrimitiveStaticTypeAccountKey
  | PrimitiveStaticTypeAccount
  | PrimitiveStaticTypeAccount_Capabilities
  | PrimitiveStaticTypeAccount_AccountCapabilities
  | PrimitiveStaticTypeAccount_StorageCapabilities
  | PrimitiveStaticTypeAccount_Contracts
  | PrimitiveStaticTypeAccount_Keys
  | PrimitiveStaticTypeAccount_Inbox
  | PrimitiveStaticTypeOther nat

datatype entitlement_set_kind = Conjunction | Disjunction

text \<open>
  \<open>Authorization\<close>: \<open>Unauthorized\<close>, an ordered set of entitlement type IDs with its
  kind, or an entitlement map.  The ordered set is the list of its keys in insertion
  order.
\<close>

datatype authorization =
    Unauthorized
  | EntitlementSetAuthorization (Entitlements: "type_id list") (SetKind: entitlement_set_kind)
  | EntitlementMapAuthorization type_id

text \<open>\<open>orderedmap.Set\<close>: a key already present keeps its position.\<close>

definition TypeIDOrderedSet_Set :: "type_id list \<Rightarrow> type_id \<Rightarrow> type_id list" where
  "TypeIDOrderedSet_Set s k = (if k \<in> set s then s else s @ [k])"

definition NewEntitlementSetAuthorization ::
  "type_id list \<Rightarrow> entitlement_set_kind \<Rightarrow> authorization" where
  "NewEntitlementSetAuthorization entitlementList kind =
     EntitlementSetAuthorization (foldl TypeIDOrderedSet_Set [] entitlementList) kind"

datatype composite_static_type =
  Composite (CompositeLocation: location) (CompositeQualifiedIdentifier: string)
            (TypeID: type_id)

datatype interface_static_type =
  Interface (Location: location) (QualifiedIdentifier: string)

text \<open>
  The migration works on pointers to static types and compares a converted type with the
  two package-level account reference types by pointer (\<open>switch convertedReferencedType\<close>
  with the two variables as cases).  The only identity that matters is therefore whether
  a \<open>*ReferenceStaticType\<close> is one of these two objects.  \<open>reference_object\<close> records
  it: the object of \<open>authAccountReferenceType\<close>, the object of
  \<open>unauthorizedAccountReferenceType\<close>, or any other allocation.
\<close>

datatype reference_object =
    AuthAccountReferenceObject
  | UnauthorizedAccountReferenceObject
  | Allocated

text \<open>
  \<open>StaticType\<close>.  \<open>IntersectionStaticType\<close> holds its interface types and an optional
  legacy type; the borrow type of \<open>CapabilityStaticType\<close> may be nil.  The signature of
  a \<open>FunctionStaticType\<close> is opaque.  \<open>dummyStaticType\<close> is the wrapper of a primitive
  static type that the migration package uses in its tests.
\<close>

datatype static_type =
    CompositeStaticType composite_static_type
  | InterfaceStaticType interface_static_type
  | VariableSizedStaticType static_type
  | ConstantSizedStaticType static_type "64 word"
  | DictionaryStaticType static_type static_type
  | OptionalStaticType static_type
  | IntersectionStaticType (Types: "interface_static_type list")
                           (LegacyType: "static_type option")
  | ReferenceStaticType (Object: reference_object) (Authorization: authorization)
                        (ReferencedType: static_type)
  | CapabilityStaticType "static_type option"
  | FunctionStaticType string
  | PrimitiveStaticType primitive_static_type
  | dummyStaticType primitive_static_type

definition NewReferenceStaticType :: "authorization \<Rightarrow> static_type \<Rightarrow> static_type" where
  "NewReferenceStaticType auth referencedType = ReferenceStaticType Allocated auth referencedType"

definition NewIntersectionStaticType :: "interface_static_type list \<Rightarrow> static_type" where
  "NewIntersectionStaticType types = IntersectionStaticType types None"

text \<open>\<open>InterfaceStaticType.Equal\<close>: the other type is an interface type with the same
  location and qualified identifier.\<close>

fun InterfaceStaticType_Equal :: "interface_static_type \<Rightarrow> static_type \<Rightarrow> bool" where
  "InterfaceStaticType_Equal t (InterfaceStaticType otherInterfaceType) =
     (Location otherInterfaceType = Location t \<and>
      QualifiedIdentifier otherInterfaceType = QualifiedIdentifier t)"
| "InterfaceStaticType_Equal t _ = False"

text \<open>
  \<open>IntersectionStaticType.Equal\<close>: the other type is an intersection type with as many
  interface types, and every interface type of the receiver equals one of the other's.
  The legacy type is not compared.  The receiver is the intersection type given by its
  two fields.
\<close>

fun IntersectionStaticType_Equal ::
  "interface_static_type list \<Rightarrow> static_type option \<Rightarrow> static_type \<Rightarrow> bool" where
  "IntersectionStaticType_Equal types legacy (IntersectionStaticType otherTypes otherLegacy) =
     (if length types \<noteq> length otherTypes then False
      else list_all (\<lambda>typ. list_ex (\<lambda>otherType.
             InterfaceStaticType_Equal typ (InterfaceStaticType otherType)) otherTypes) types)"
| "IntersectionStaticType_Equal types legacy _ = False"

section \<open>The static type migration (migrations/statictypes/statictype_migration.go)\<close>

text \<open>
  A converter function that is not configured is nil (\<open>None\<close>); a configured one returns
  a static type or nil.
\<close>

record StaticTypeMigration =
  compositeTypeConverter :: "(composite_static_type \<Rightarrow> static_type option) option"
  interfaceTypeConverter :: "(interface_static_type \<Rightarrow> static_type option) option"

definition NewStaticTypeMigration :: StaticTypeMigration where
  "NewStaticTypeMigration =
     \<lparr> compositeTypeConverter = None, interfaceTypeConverter = None \<rparr>"

text \<open>
  The panics of the migration: the replacement of an interface type of an intersection
  type that is not an interface type (with the intersection type, the interface type and
  the replacement of the message), \<open>errors.NewUnreachableError()\<close>, a failed type
  assertion \<open>convertedBorrowType.(*interpreter.ReferenceStaticType)\<close>, and the
  \<open>panic(err)\<close> of the storage migration with the error of \<open>Commit\<close>.
\<close>

datatype panic =
    InvalidNonInterfaceReplacement static_type interface_static_type static_type
  | UnreachableError
  | TypeAssertionFailed static_type
  | CommitError string

text \<open>
  Modelled from the spec: the entitlement declarations of package \<open>sema\<close>
  (\<open>sema.StorageType\<close>, ...) are not among the sources; the spec names the set as
  covering storage/contracts/keys/inbox/capabilities, and the type ID of a built-in
  entitlement is its identifier.
\<close>

definition StorageType_ID :: type_id where "StorageType_ID = ''Storage''"
definition ContractsType_ID :: type_id where "ContractsType_ID = ''Contracts''"
definition KeysType_ID :: type_id where "KeysType_ID = ''Keys''"
definition InboxType_ID :: type_id where "InboxType_ID = ''Inbox''"
definition CapabilitiesType_ID :: type_id where "CapabilitiesType_ID = ''Capabilities''"

definition authAccountEntitlements :: "type_id list" where
  "authAccountEntitlements =
     [StorageType_ID, ContractsType_ID, KeysType_ID, InboxType_ID, CapabilitiesType_ID]"

text \<open>The two package-level variables: each is one object, allocated once.\<close>

definition authAccountReferenceType :: static_type where
  "authAccountReferenceType =
     ReferenceStaticType AuthAccountReferenceObject
       (NewEntitlementSetAuthorization authAccountEntitlements Conjunction)
       (PrimitiveStaticType PrimitiveStaticTypeAccount)"

definition unauthorizedAccountReferenceType :: static_type where
  "unauthorizedAccountReferenceType =
     ReferenceStaticType UnauthorizedAccountReferenceObject
       Unauthorized
       (PrimitiveStaticType PrimitiveStaticTypeAccount)"

text \<open>
  Modelled from the spec: \<open>interpreter.AccountKeyStaticType\<close> is declared outside the
  files at hand; it is the composite static type of the built-in \<open>AccountKey\<close>, which has
  no location.
\<close>

definition AccountKeyStaticType :: static_type where
  "AccountKeyStaticType = CompositeStaticType (Composite None ''AccountKey'' ''AccountKey'')"

text \<open>The \<open>PrimitiveStaticType\<close> case of \<open>maybeConvertStaticType\<close>: the lookup table.\<close>

fun convertPrimitiveStaticType :: "primitive_static_type \<Rightarrow> static_type option" where
  "convertPrimitiveStaticType PrimitiveStaticTypePublicAccount =
     Some unauthorizedAccountReferenceType"
| "convertPrimitiveStaticType PrimitiveStaticTypeAuthAccount =
     Some authAccountReferenceType"
| "convertPrimitiveStaticType PrimitiveStaticTypeAuthAccountCapabilities =
     Some (PrimitiveStaticType PrimitiveStaticTypeAccount_Capabilities)"
| "convertPrimitiveStaticType PrimitiveStaticTypePublicAccountCapabilities =
     Some (PrimitiveStaticType PrimitiveStaticTypeAccount_Capabilities)"
| "convertPrimitiveStaticType PrimitiveStaticTypeAuthAccountAccountCapabilities =
     Some (PrimitiveStaticType PrimitiveStaticTypeAccount_AccountCapabilities)"
| "convertPrimitiveStaticType PrimitiveStaticTypeAuthAccountStorageCapabilities =
     Some (PrimitiveStaticType PrimitiveStaticTypeAccount_StorageCapabilities)"
| "convertPrimitiveStaticType PrimitiveStaticTypeAuthAccountContracts =
     Some (PrimitiveStaticType PrimitiveStaticTypeAccount_Contracts)"
| "convertPrimitiveStaticType PrimitiveStaticTypePublicAccountContracts =
     Some (PrimitiveStaticType PrimitiveStaticTypeAccount_Contracts)"
| "convertPrimitiveStaticType PrimitiveStaticTypeAuthAccountKeys =
     Some (PrimitiveStaticType PrimitiveStaticTypeAccount_Keys)"
| "convertPrimitiveStaticType PrimitiveStaticTypePublicAccountKeys =
     Some (PrimitiveStaticType PrimitiveStaticTypeAccount_Keys)"
| "convertPrimitiveStaticType PrimitiveStaticTypeAuthAccountInbox =
     Some (PrimitiveStaticType PrimitiveStaticTypeAccount_Inbox)"
| "convertPrimitiveStaticType PrimitiveStaticTypeAccountKey =
     Some AccountKeyStaticType"
| "convertPrimitiveStaticType _ = None"

text \<open>The \<open>CompositeStaticType\<close> and \<open>InterfaceStaticType\<close> cases: the configured
  converter decides, and without one there is no replacement.\<close>

definition convertCompositeStaticType ::
  "StaticTypeMigration \<Rightarrow> composite_static_type \<Rightarrow> static_type option" where
  "convertCompositeStaticType m staticType =
     (case compositeTypeConverter m of
        None \<Rightarrow> None
      | Some converterFunc \<Rightarrow> converterFunc staticType)"

definition convertInterfaceStaticType ::
  "StaticTypeMigration \<Rightarrow> interface_static_type \<Rightarrow> static_type option" where
  "convertInterfaceStaticType m staticType =
     (case interfaceTypeConverter m of
        None \<Rightarrow> None
      | Some converterFunc \<Rightarrow> converterFunc staticType)"

text \<open>
  The loop of the \<open>IntersectionStaticType\<close> case over \<open>staticType.Types\<close>.  Each
  interface type is converted through the \<open>InterfaceStaticType\<close> case; a replacement
  must be an interface type, otherwise the loop panics at that element.  The result is
  \<open>convertedInterfaceTypes\<close> with the flag \<open>convertedInterfaceType\<close>.
\<close>

fun convertInterfaceTypes ::
  "StaticTypeMigration \<Rightarrow> static_type \<Rightarrow> interface_static_type list
     \<Rightarrow> panic + (interface_static_type list \<times> bool)" where
  "convertInterfaceTypes m staticType [] = Inr ([], False)"
| "convertInterfaceTypes m staticType (interfaceStaticType # rest) =
     (case convertInterfaceStaticType m interfaceStaticType of
        Some (InterfaceStaticType replacement) \<Rightarrow>
          (case convertInterfaceTypes m staticType rest of
             Inl p \<Rightarrow> Inl p
           | Inr (converted, _) \<Rightarrow> Inr (replacement # converted, True))
      | Some convertedType \<Rightarrow>
          Inl (InvalidNonInterfaceReplacement staticType interfaceStaticType convertedType)
      | None \<Rightarrow>
          (case convertInterfaceTypes m staticType rest of
             Inl p \<Rightarrow> Inl p
           | Inr (converted, convertedInterfaceType) \<Rightarrow>
               Inr (interfaceStaticType # converted, convertedInterfaceType)))"

text \<open>
  \<open>maybeConvertStaticType\<close>.  \<open>Inl\<close> is a panic, \<open>Inr None\<close> the result nil (no
  change), \<open>Inr (Some t)\<close> the replacement.  A nil static type (the nil borrow type of a
  capability type) matches no case of the type switch and reaches \<open>default\<close>, which
  panics.
\<close>

fun maybeConvertStaticType ::
  "StaticTypeMigration \<Rightarrow> static_type \<Rightarrow> panic + static_type option" where
  "maybeConvertStaticType m (ConstantSizedStaticType elementType arraySize) =
     (case maybeConvertStaticType m elementType of
        Inl p \<Rightarrow> Inl p
      | Inr None \<Rightarrow> Inr None
      | Inr (Some convertedType) \<Rightarrow> Inr (Some (ConstantSizedStaticType convertedType arraySize)))"
| "maybeConvertStaticType m (VariableSizedStaticType elementType) =
     (case maybeConvertStaticType m elementType of
        Inl p \<Rightarrow> Inl p
      | Inr None \<Rightarrow> Inr None
      | Inr (Some convertedType) \<Rightarrow> Inr (Some (VariableSizedStaticType convertedType)))"
| "maybeConvertStaticType m (DictionaryStaticType keyType valueType) =
     (case maybeConvertStaticType m keyType of
        Inl p \<Rightarrow> Inl p
      | Inr convertedKeyType \<Rightarrow>
          (case maybeConvertStaticType m valueType of
             Inl p \<Rightarrow> Inl p
           | Inr convertedValueType \<Rightarrow>
               (case (convertedKeyType, convertedValueType) of
                  (Some k, Some v) \<Rightarrow> Inr (Some (DictionaryStaticType k v))
                | (Some k, None) \<Rightarrow> Inr (Some (DictionaryStaticType k valueType))
                | (None, Some v) \<Rightarrow> Inr (Some (DictionaryStaticType keyType v))
                | (None, None) \<Rightarrow> Inr None)))"
| "maybeConvertStaticType m (CapabilityStaticType None) = Inl UnreachableError"
| "maybeConvertStaticType m (CapabilityStaticType (Some borrowType)) =
     (case maybeConvertStaticType m borrowType of
        Inl p \<Rightarrow> Inl p
      | Inr None \<Rightarrow> Inr None
      | Inr (Some convertedBorrowType) \<Rightarrow> Inr (Some (CapabilityStaticType (Some convertedBorrowType))))"
| "maybeConvertStaticType m (IntersectionStaticType types legacyType) =
     (case convertInterfaceTypes m (IntersectionStaticType types legacyType) types of
        Inl p \<Rightarrow> Inl p
      | Inr (convertedInterfaceTypes, convertedInterfaceType) \<Rightarrow>
          (case (case legacyType of
                   None \<Rightarrow> Inr None
                 | Some legacy \<Rightarrow> maybeConvertStaticType m legacy) of
             Inl p \<Rightarrow> Inl p
           | Inr convertedLegacyType \<Rightarrow>
               (if 2 \<le> length types \<or> convertedInterfaceType \<or> convertedLegacyType \<noteq> None
                then Inr (Some (IntersectionStaticType convertedInterfaceTypes
                         (case convertedLegacyType of
                            Some l \<Rightarrow> Some l
                          | None \<Rightarrow> legacyType)))
                else Inr None)))"
| "maybeConvertStaticType m (OptionalStaticType innerType) =
     (case maybeConvertStaticType m innerType of
        Inl p \<Rightarrow> Inl p
      | Inr None \<Rightarrow> Inr None
      | Inr (Some convertedInnerType) \<Rightarrow> Inr (Some (OptionalStaticType convertedInnerType)))"
| "maybeConvertStaticType m (ReferenceStaticType obj auth referencedType) =
     (case maybeConvertStaticType m referencedType of
        Inl p \<Rightarrow> Inl p
      | Inr None \<Rightarrow> Inr None
      | Inr (Some convertedReferencedType) \<Rightarrow>
          (if convertedReferencedType = authAccountReferenceType
              \<or> convertedReferencedType = unauthorizedAccountReferenceType
           then Inr (Some convertedReferencedType)
           else Inr (Some (NewReferenceStaticType auth convertedReferencedType))))"
| "maybeConvertStaticType m (FunctionStaticType sig) = Inr None"
| "maybeConvertStaticType m (CompositeStaticType staticType) =
     Inr (convertCompositeStaticType m staticType)"
| "maybeConvertStaticType m (InterfaceStaticType staticType) =
     Inr (convertInterfaceStaticType m staticType)"
| "maybeConvertStaticType m (dummyStaticType primitive) =
     Inr (convertPrimitiveStaticType primitive)"
| "maybeConvertStaticType m (PrimitiveStaticType staticType) =
     Inr (convertPrimitiveStaticType staticType)"

section \<open>Values that carry a static type\<close>

text \<open>
  Modelled from the spec: the value types of package \<open>interpreter\<close> are declared outside
  the files at hand.  The fields are the ones \<open>StaticTypeMigration.Migrate\<close> and
  \<open>migrateNestedValue\<close> read and write: the type-shaped leaves with their embedded type
  and payload, the four containers (optional, array, composite with named fields,
  dictionary), and leaves without a static type (nil, integers, strings, booleans).  An address is the 8 bytes of
  \<open>common.Address\<close>, a capability ID a \<open>uint64\<close>.
\<close>

type_synonym address = "64 word"

datatype path_domain = PathDomainStorage | PathDomainPrivate | PathDomainPublic

datatype path_value = PathValue (Domain: path_domain) (Identifier: string)

datatype "value" =
    TypeValue static_type
  | CapabilityValue "64 word" address static_type
  | PathCapabilityValue static_type path_value address
  | PathLinkValue static_type path_value
  | AccountCapabilityControllerValue static_type "64 word"
  | StorageCapabilityControllerValue static_type "64 word" path_value
  | SomeValue "value"
  | ArrayValue "value list"
  | CompositeValue "(string \<times> value) list"
  | DictionaryValue "(value \<times> value) list"
  | NilValue
  | IntValue int
  | StringValue string
  | BoolValue bool

definition NewTypeValue :: "static_type \<Rightarrow> value" where
  "NewTypeValue staticType = TypeValue staticType"

definition NewUnmeteredCapabilityValue :: "64 word \<Rightarrow> address \<Rightarrow> static_type \<Rightarrow> value" where
  "NewUnmeteredCapabilityValue capabilityID addr borrowType =
     CapabilityValue capabilityID addr borrowType"

definition NewUnmeteredAccountCapabilityControllerValue ::
  "static_type \<Rightarrow> 64 word \<Rightarrow> value" where
  "NewUnmeteredAccountCapabilityControllerValue borrowType capabilityID =
     AccountCapabilityControllerValue borrowType capabilityID"

definition NewUnmeteredStorageCapabilityControllerValue ::
  "static_type \<Rightarrow> 64 word \<Rightarrow> path_value \<Rightarrow> value" where
  "NewUnmeteredStorageCapabilityControllerValue borrowType capabilityID targetPath =
     StorageCapabilityControllerValue borrowType capabilityID targetPath"

text \<open>The type assertion \<open>convertedBorrowType.(*interpreter.ReferenceStaticType)\<close>.\<close>

fun assertReferenceStaticType :: "static_type \<Rightarrow> panic + static_type" where
  "assertReferenceStaticType (ReferenceStaticType obj auth referencedType) =
     Inr (ReferenceStaticType obj auth referencedType)"
| "assertReferenceStaticType t = Inl (TypeAssertionFailed t)"

type_synonym storage_key = "address \<times> string"
type_synonym storage_map_key = string

text \<open>
  \<open>StaticTypeMigration.Migrate\<close> returns \<open>(newValue, err)\<close>; the named result \<open>err\<close> is
  never assigned.  \<open>Inl\<close> is a panic.
\<close>

fun StaticTypeMigration_Migrate ::
  "StaticTypeMigration \<Rightarrow> storage_key \<Rightarrow> storage_map_key \<Rightarrow> value
     \<Rightarrow> panic + (value option \<times> string option)" where
  "StaticTypeMigration_Migrate m sk smk (TypeValue staticType) =
     (case maybeConvertStaticType m staticType of
        Inl p \<Rightarrow> Inl p
      | Inr None \<Rightarrow> Inr (None, None)
      | Inr (Some convertedType) \<Rightarrow> Inr (Some (NewTypeValue convertedType), None))"
| "StaticTypeMigration_Migrate m sk smk (CapabilityValue capabilityID addr borrowType) =
     (case maybeConvertStaticType m borrowType of
        Inl p \<Rightarrow> Inl p
      | Inr None \<Rightarrow> Inr (None, None)
      | Inr (Some convertedBorrowType) \<Rightarrow>
          Inr (Some (NewUnmeteredCapabilityValue capabilityID addr convertedBorrowType), None))"
| "StaticTypeMigration_Migrate m sk smk (PathCapabilityValue borrowType path addr) =
     (case maybeConvertStaticType m borrowType of
        Inl p \<Rightarrow> Inl p
      | Inr None \<Rightarrow> Inr (None, None)
      | Inr (Some convertedBorrowType) \<Rightarrow>
          Inr (Some (PathCapabilityValue convertedBorrowType path addr), None))"
| "StaticTypeMigration_Migrate m sk smk (PathLinkValue staticType targetPath) =
     (case maybeConvertStaticType m staticType of
        Inl p \<Rightarrow> Inl p
      | Inr None \<Rightarrow> Inr (None, None)
      | Inr (Some convertedBorrowType) \<Rightarrow>
          Inr (Some (PathLinkValue convertedBorrowType targetPath), None))"
| "StaticTypeMigration_Migrate m sk smk (AccountCapabilityControllerValue borrowType capabilityID) =
     (case maybeConvertStaticType m borrowType of
        Inl p \<Rightarrow> Inl p
      | Inr None \<Rightarrow> Inr (None, None)
      | Inr (Some convertedBorrowType) \<Rightarrow>
          (case assertReferenceStaticType convertedBorrowType of
             Inl p \<Rightarrow> Inl p
           | Inr referenceType \<Rightarrow>
               Inr (Some (NewUnmeteredAccountCapabilityControllerValue referenceType capabilityID),
                    None)))"
| "StaticTypeMigration_Migrate m sk smk (StorageCapabilityControllerValue borrowType capabilityID targetPath) =
     (case maybeConvertStaticType m borrowType of
        Inl p \<Rightarrow> Inl p
      | Inr None \<Rightarrow> Inr (None, None)
      | Inr (Some convertedBorrowType) \<Rightarrow>
          (case assertReferenceStaticType convertedBorrowType of
             Inl p \<Rightarrow> Inl p
           | Inr referenceType \<Rightarrow>
               Inr (Some (NewUnmeteredStorageCapabilityControllerValue
                            referenceType capabilityID targetPath),
                    None)))"
| "StaticTypeMigration_Migrate m sk smk _ = Inr (None, None)"

section \<open>Notions used to state the properties of the static type migration\<close>

text \<open>
  The value of the variable \<open>replacement\<close> in the loop of the \<open>IntersectionStaticType\<close>
  case when the loop does not panic: the converted interface type, or the interface type
  itself when the conversion is nil.
\<close>

definition replacementOrSame :: "StaticTypeMigration \<Rightarrow> interface_static_type \<Rightarrow> interface_static_type" where
  "replacementOrSame m interfaceStaticType =
     (case convertInterfaceStaticType m interfaceStaticType of
        Some (InterfaceStaticType replacement) \<Rightarrow> replacement
      | _ \<Rightarrow> interfaceStaticType)"

text \<open>The value kinds that \<open>StaticTypeMigration.Migrate\<close> has a case for.\<close>

fun typeShaped :: "value \<Rightarrow> bool" where
  "typeShaped (TypeValue _) = True"
| "typeShaped (CapabilityValue _ _ _) = True"
| "typeShaped (PathCapabilityValue _ _ _) = True"
| "typeShaped (PathLinkValue _ _) = True"
| "typeShaped (AccountCapabilityControllerValue _ _) = True"
| "typeShaped (StorageCapabilityControllerValue _ _ _) = True"
| "typeShaped _ = False"

text \<open>
  A migration whose interface type converter replaces every interface type by the
  primitive type \<open>Account\<close>, which is not an interface type.
\<close>

definition misconfiguredMigration :: StaticTypeMigration where
  "misconfiguredMigration =
     \<lparr> compositeTypeConverter = None,
       interfaceTypeConverter = Some (\<lambda>i. Some (PrimitiveStaticType PrimitiveStaticTypeAccount)) \<rparr>"

section \<open>The storage migration (migrations/migration.go)\<close>

text \<open>
  The \<open>Migration\<close> interface of the traversal: \<open>Name()\<close> and
  \<open>Migrate(accountAddress, value)\<close>, which returns the new value or nil.
\<close>

record Migration =
  Migration_Name :: string
  Migration_Migrate :: "address \<Rightarrow> value \<Rightarrow> value option"

text \<open>
  The calls on the reporter.  The traversal calls
  \<open>reporter.Report(address, domain, key, migration.Name())\<close>; the \<open>Reporter\<close>
  interface of migrations/migration_reporter.go declares \<open>Migrated\<close>, with a storage
  key, a storage map key and a migration name, and \<open>Error\<close>, with the error in
  addition.
\<close>

datatype report =
    Report address path_domain string string
  | Migrated storage_key storage_map_key string
  | Error storage_key storage_map_key string string

definition ZeroAddress :: address where
  "ZeroAddress = 0"

text \<open>
  The \<open>default\<close> case of \<open>migrateNestedValue\<close>: the loop over the migrations.  The
  variable \<open>value\<close> is the working value, \<open>newValue\<close> the result so far.  \<open>reporter\<close>
  says whether the reporter is not nil; the calls made on it are returned in order.
\<close>

fun migrateLeaf ::
  "Migration list \<Rightarrow> bool \<Rightarrow> address \<Rightarrow> path_domain \<Rightarrow> string
     \<Rightarrow> value \<Rightarrow> value option \<Rightarrow> value option \<times> report list" where
  "migrateLeaf [] reporter addr domain key val newValue = (newValue, [])"
| "migrateLeaf (migration # migrations) reporter addr domain key val newValue =
     (case Migration_Migrate migration addr val of
        None \<Rightarrow> migrateLeaf migrations reporter addr domain key val newValue
      | Some converted \<Rightarrow>
          (case migrateLeaf migrations reporter addr domain key converted (Some converted) of
             (result, reports) \<Rightarrow>
               (result,
                (if reporter then [Report addr domain key (Migration_Name migration)] else [])
                  @ reports)))"

text \<open>
  Modelled from the spec: the container operations of package \<open>interpreter\<close> are
  declared outside the files at hand.  A dictionary is its list of entries with
  \<open>Get\<close>, \<open>RemoveKey\<close> and \<open>SetKey\<close> by key; \<open>SetKey\<close> takes the value wrapped as
  present and inserts it or replaces the value of the key (nil removes the key; the
  traversal passes no other value).  A composite is its list of named fields with
  \<open>GetField\<close> and \<open>SetMember\<close>.
\<close>

definition DictionaryValue_Get :: "(value \<times> value) list \<Rightarrow> value \<Rightarrow> value option" where
  "DictionaryValue_Get entries key = map_of entries key"

definition DictionaryValue_RemoveKey :: "(value \<times> value) list \<Rightarrow> value \<Rightarrow> (value \<times> value) list" where
  "DictionaryValue_RemoveKey entries key = AList.delete key entries"

fun DictionaryValue_SetKey ::
  "(value \<times> value) list \<Rightarrow> value \<Rightarrow> value \<Rightarrow> (value \<times> value) list" where
  "DictionaryValue_SetKey entries key (SomeValue v) = AList.update key v entries"
| "DictionaryValue_SetKey entries key NilValue = AList.delete key entries"
| "DictionaryValue_SetKey entries key _ = entries"

definition CompositeValue_GetField :: "(string \<times> value) list \<Rightarrow> string \<Rightarrow> value option" where
  "CompositeValue_GetField members fieldName = map_of members fieldName"

definition CompositeValue_SetMember ::
  "(string \<times> value) list \<Rightarrow> string \<Rightarrow> value \<Rightarrow> (string \<times> value) list" where
  "CompositeValue_SetMember members fieldName v = AList.update fieldName v members"

text \<open>
  Containers are mutated in place, and the values held by a container are objects that a
  nested call may have mutated.  In the model a nested call returns the state of its
  argument after the call next to the replacement it returns, and the container takes
  that state where the source leaves the object in place.  \<open>replaceEntry\<close> puts the
  state of a key object and the value now held under it into the entry of that key.
\<close>

definition replaceEntry ::
  "value \<Rightarrow> value \<times> value \<Rightarrow> (value \<times> value) list \<Rightarrow> (value \<times> value) list" where
  "replaceEntry key entry entries =
     map (\<lambda>(k, v). if k = key then entry else (k, v)) entries"

text \<open>
  One iteration of the loop over \<open>existingKeys\<close>, after the two nested calls:
  \<open>existingKey\<close> and \<open>existingValue\<close> are the states of the two objects after the
  calls.  If neither was replaced the loop continues.  Otherwise a replaced key removes
  the entry of the old key, and the new (else the existing) value is set under the new
  (else the existing) key, wrapped as present.
\<close>

definition dictionaryStep ::
  "(value \<times> value) list \<Rightarrow> value \<Rightarrow> value \<Rightarrow> value option \<Rightarrow> value \<Rightarrow> value option
     \<Rightarrow> (value \<times> value) list" where
  "dictionaryStep entries key0 existingKey newKey existingValue newValue =
     (let dictionary = replaceEntry key0 (existingKey, existingValue) entries in
      if newKey = None \<and> newValue = None then dictionary
      else
        let (keyToSet, dictionary') =
              (case newKey of
                 None \<Rightarrow> (existingKey, dictionary)
               | Some k \<Rightarrow> (k, DictionaryValue_RemoveKey dictionary existingKey));
            valueToSet = (case newValue of None \<Rightarrow> existingValue | Some v \<Rightarrow> v)
        in DictionaryValue_SetKey dictionary' keyToSet (SomeValue valueToSet))"

text \<open>
  The three loops of \<open>migrateNestedValue\<close> over the contents of a container.  The
  parameter \<open>nested\<close> is the nested call \<open>m.migrateNestedValue(...)\<close>: it returns
  \<open>None\<close> when it does not return, \<open>Some (Inl p)\<close> for a panic, and
  \<open>Some (Inr (v, newValue, calls))\<close> for the state of its argument after the call, the
  returned replacement (or nil) and the reporter calls made.

  The array loop visits the elements in index order; \<open>Set\<close> writes only the current
  index, so the element read at an index is the original one.  The composite loop and
  the dictionary loop run over the names and keys read first and look each one up in
  the current container.  A key that is not found panics.  A field name read from the
  composite is always found, since \<open>SetMember\<close> removes no field; the branch for a
  missing field is never taken, and the model ends the traversal there.
\<close>

fun migrateArrayElements ::
  "(value \<Rightarrow> (panic + value \<times> value option \<times> 'r list) option) \<Rightarrow> value list
     \<Rightarrow> (panic + value list \<times> 'r list) option" where
  "migrateArrayElements nested [] = Some (Inr ([], []))"
| "migrateArrayElements nested (element # elements) =
     (case nested element of
        None \<Rightarrow> None
      | Some (Inl p) \<Rightarrow> Some (Inl p)
      | Some (Inr (element', newElement, calls)) \<Rightarrow>
          (case migrateArrayElements nested elements of
             None \<Rightarrow> None
           | Some (Inl p) \<Rightarrow> Some (Inl p)
           | Some (Inr (elements', calls')) \<Rightarrow>
               Some (Inr ((case newElement of None \<Rightarrow> element' | Some e \<Rightarrow> e) # elements',
                          calls @ calls'))))"

fun migrateCompositeFields ::
  "(value \<Rightarrow> (panic + value \<times> value option \<times> 'r list) option)
     \<Rightarrow> (string \<times> value) list \<Rightarrow> string list
     \<Rightarrow> (panic + (string \<times> value) list \<times> 'r list) option" where
  "migrateCompositeFields nested members [] = Some (Inr (members, []))"
| "migrateCompositeFields nested members (fieldName # fieldNames) =
     (case CompositeValue_GetField members fieldName of
        None \<Rightarrow> Some (Inl UnreachableError)
      | Some existingValue \<Rightarrow>
          (case nested existingValue of
             None \<Rightarrow> None
           | Some (Inl p) \<Rightarrow> Some (Inl p)
           | Some (Inr (existingValue', migratedValue, calls)) \<Rightarrow>
               (case migrateCompositeFields nested
                       (CompositeValue_SetMember members fieldName
                          (case migratedValue of None \<Rightarrow> existingValue' | Some v \<Rightarrow> v))
                       fieldNames of
                  None \<Rightarrow> None
                | Some (Inl p) \<Rightarrow> Some (Inl p)
                | Some (Inr (members', calls')) \<Rightarrow> Some (Inr (members', calls @ calls')))))"

fun migrateDictionaryKeys ::
  "(value \<Rightarrow> (panic + value \<times> value option \<times> 'r list) option)
     \<Rightarrow> (value \<times> value) list \<Rightarrow> value list
     \<Rightarrow> (panic + (value \<times> value) list \<times> 'r list) option" where
  "migrateDictionaryKeys nested entries [] = Some (Inr (entries, []))"
| "migrateDictionaryKeys nested entries (existingKey # existingKeys) =
     (case DictionaryValue_Get entries existingKey of
        None \<Rightarrow> Some (Inl UnreachableError)
      | Some existingValue \<Rightarrow>
          (case nested existingKey of
             None \<Rightarrow> None
           | Some (Inl p) \<Rightarrow> Some (Inl p)
           | Some (Inr (existingKey', newKey, calls)) \<Rightarrow>
               (case nested existingValue of
                  None \<Rightarrow> None
                | Some (Inl p) \<Rightarrow> Some (Inl p)
                | Some (Inr (existingValue', newValue, calls')) \<Rightarrow>
                    (case migrateDictionaryKeys nested
                            (dictionaryStep entries existingKey existingKey' newKey
                               existingValue' newValue)
                            existingKeys of
                       None \<Rightarrow> None
                     | Some (Inl p) \<Rightarrow> Some (Inl p)
                     | Some (Inr (entries', calls'')) \<Rightarrow>
                         Some (Inr (entries', calls @ calls' @ calls''))))))"

text \<open>
  \<open>migrateNestedValue\<close>, with its \<open>default\<close> case as the parameter \<open>leaf\<close>.  A
  migration may return a container for a leaf, and a dictionary may hand such a value to
  a nested call again, so the recursion need not end: the argument after \<open>leaf\<close>
  bounds the depth of the nested calls, and \<open>None\<close> says that the bound was reached.
\<close>

primrec migrateNestedValueWith ::
  "(value \<Rightarrow> value option \<times> 'r list) \<Rightarrow> nat \<Rightarrow> value
     \<Rightarrow> (panic + value \<times> value option \<times> 'r list) option" where
  "migrateNestedValueWith leaf 0 = (\<lambda>v. None)"
| "migrateNestedValueWith leaf (Suc n) = (\<lambda>v.
     (case v of
        SomeValue innerValue \<Rightarrow>
          (case migrateNestedValueWith leaf n innerValue of
             None \<Rightarrow> None
           | Some (Inl p) \<Rightarrow> Some (Inl p)
           | Some (Inr (innerValue', newInnerValue, calls)) \<Rightarrow>
               Some (Inr (SomeValue innerValue', map_option SomeValue newInnerValue, calls)))
      | ArrayValue elements \<Rightarrow>
          (case migrateArrayElements (migrateNestedValueWith leaf n) elements of
             None \<Rightarrow> None
           | Some (Inl p) \<Rightarrow> Some (Inl p)
           | Some (Inr (elements', calls)) \<Rightarrow> Some (Inr (ArrayValue elements', None, calls)))
      | CompositeValue members \<Rightarrow>
          (case migrateCompositeFields (migrateNestedValueWith leaf n) members (map fst members) of
             None \<Rightarrow> None
           | Some (Inl p) \<Rightarrow> Some (Inl p)
           | Some (Inr (members', calls)) \<Rightarrow> Some (Inr (CompositeValue members', None, calls)))
      | DictionaryValue entries \<Rightarrow>
          (case migrateDictionaryKeys (migrateNestedValueWith leaf n) entries (map fst entries) of
             None \<Rightarrow> None
           | Some (Inl p) \<Rightarrow> Some (Inl p)
           | Some (Inr (entries', calls)) \<Rightarrow> Some (Inr (DictionaryValue entries', None, calls)))
      | _ \<Rightarrow>
          (case leaf v of (newValue, calls) \<Rightarrow> Some (Inr (v, newValue, calls)))))"

definition migrateNestedValue ::
  "nat \<Rightarrow> value \<Rightarrow> address \<Rightarrow> path_domain \<Rightarrow> string \<Rightarrow> Migration list \<Rightarrow> bool
     \<Rightarrow> (panic + value \<times> value option \<times> report list) option" where
  "migrateNestedValue n val addr domain key migrations reporter =
     migrateNestedValueWith
       (\<lambda>leafValue. migrateLeaf migrations reporter addr domain key leafValue None) n val"

section \<open>The runner: \<open>StorageMigration.Migrate\<close>\<close>

text \<open>
  Modelled from the spec: \<open>runtime.Storage\<close>, \<open>NewAccountStorage\<close> and
  \<open>AccountStorage.ForEachValue\<close> are declared outside the files at hand.  The storage
  is an addressable container: the storage maps that exist, each for an address and a
  domain, with their stored keys and values.  \<open>commitResult\<close> is the error that \<open>Commit\<close> returns (or nil), and
  \<open>storageCalls\<close> records the calls made on the storage, in order: a
  \<open>ForEachValue\<close> for an address, a \<open>Commit\<close> with its flag.
\<close>

datatype storage_call = ForEachValueCall address | CommitCall bool

record Storage =
  storageMaps :: "((address \<times> path_domain) \<times> (string \<times> value) list) list"
  commitResult :: "string option"
  storageCalls :: "storage_call list"

definition AllPathDomains :: "path_domain list" where
  "AllPathDomains = [PathDomainStorage, PathDomainPrivate, PathDomainPublic]"

definition Storage_Commit :: "Storage \<Rightarrow> bool \<Rightarrow> string option \<times> Storage" where
  "Storage_Commit storage commitContractUpdates =
     (commitResult storage,
      storage\<lparr> storageCalls := storageCalls storage @ [CommitCall commitContractUpdates] \<rparr>)"

text \<open>
  Modelled from the spec: \<open>ForEachValue\<close> enumerates every domain and, within each, every
  stored key, and invokes the converter on the value found there; a returned replacement
  is stored under the key, and a value mutated in place stays where it is.  A domain
  without a storage map is skipped.
\<close>

fun forEachStoredValue ::
  "(value \<Rightarrow> address \<Rightarrow> path_domain \<Rightarrow> string \<Rightarrow> (panic + value \<times> value option \<times> 'r list) option)
     \<Rightarrow> address \<Rightarrow> path_domain \<Rightarrow> (string \<times> value) list
     \<Rightarrow> (panic + (string \<times> value) list \<times> 'r list) option" where
  "forEachStoredValue valueConverter addr domain [] = Some (Inr ([], []))"
| "forEachStoredValue valueConverter addr domain ((key, v) # stored) =
     (case valueConverter v addr domain key of
        None \<Rightarrow> None
      | Some (Inl p) \<Rightarrow> Some (Inl p)
      | Some (Inr (v', newValue, calls)) \<Rightarrow>
          (case forEachStoredValue valueConverter addr domain stored of
             None \<Rightarrow> None
           | Some (Inl p) \<Rightarrow> Some (Inl p)
           | Some (Inr (stored', calls')) \<Rightarrow>
               Some (Inr ((key, case newValue of None \<Rightarrow> v' | Some new \<Rightarrow> new) # stored',
                          calls @ calls'))))"

fun AccountStorage_ForEachValue ::
  "(value \<Rightarrow> address \<Rightarrow> path_domain \<Rightarrow> string \<Rightarrow> (panic + value \<times> value option \<times> 'r list) option)
     \<Rightarrow> address \<Rightarrow> path_domain list \<Rightarrow> ((address \<times> path_domain) \<times> (string \<times> value) list) list
     \<Rightarrow> (panic + ((address \<times> path_domain) \<times> (string \<times> value) list) list \<times> 'r list) option" where
  "AccountStorage_ForEachValue valueConverter addr [] maps = Some (Inr (maps, []))"
| "AccountStorage_ForEachValue valueConverter addr (domain # domains) maps =
     (case map_of maps (addr, domain) of
        None \<Rightarrow> AccountStorage_ForEachValue valueConverter addr domains maps
      | Some stored \<Rightarrow>
          (case forEachStoredValue valueConverter addr domain stored of
             None \<Rightarrow> None
           | Some (Inl p) \<Rightarrow> Some (Inl p)
           | Some (Inr (stored', calls)) \<Rightarrow>
               (case AccountStorage_ForEachValue valueConverter addr domains
                       (AList.update (addr, domain) stored' maps) of
                  None \<Rightarrow> None
                | Some (Inl p) \<Rightarrow> Some (Inl p)
                | Some (Inr (maps', calls')) \<Rightarrow> Some (Inr (maps', calls @ calls')))))"

text \<open>
  \<open>migrateValuesInAccount\<close>: one pass over the values of an account, with
  \<open>migrateNestedValue\<close> as the converter.  The state of the run is the storage and the
  calls made on the reporter so far.
\<close>

definition migrateValuesInAccount ::
  "nat \<Rightarrow> address \<Rightarrow> bool \<Rightarrow> Migration list \<Rightarrow> Storage \<times> report list
     \<Rightarrow> (panic + Storage \<times> report list) option" where
  "migrateValuesInAccount n addr reporter migrations state =
     (case state of (storage, reports) \<Rightarrow>
        (case AccountStorage_ForEachValue
                (\<lambda>val addr' domain key.
                   migrateNestedValue n val addr' domain key migrations reporter)
                addr AllPathDomains (storageMaps storage) of
           None \<Rightarrow> None
         | Some (Inl p) \<Rightarrow> Some (Inl p)
         | Some (Inr (maps', calls)) \<Rightarrow>
             Some (Inr (storage\<lparr> storageMaps := maps',
                                storageCalls := storageCalls storage @ [ForEachValueCall addr] \<rparr>,
                        reports @ calls))))"

text \<open>
  The loop of \<open>StorageMigration.Migrate\<close>.  An \<open>AddressIterator\<close> is a state with
  \<open>NextAddress\<close>, which returns an address and the next state.  The loop ends at the
  zero address; with an iterator that never returns it the loop does not end, and the
  result is \<open>None\<close>.  \<open>pass\<close> is the per-address pass.
\<close>

partial_function (option) migrateAddresses ::
  "(address \<Rightarrow> 'w \<Rightarrow> (panic + 'w) option) \<Rightarrow> ('s \<Rightarrow> address \<times> 's) \<Rightarrow> 's \<Rightarrow> 'w
     \<Rightarrow> (panic + 'w) option" where
  "migrateAddresses pass nextAddress iterator state =
     (case nextAddress iterator of (addr, iterator') \<Rightarrow>
        if addr = ZeroAddress then Some (Inr state)
        else (case pass addr state of
                None \<Rightarrow> None
              | Some (Inl p) \<Rightarrow> Some (Inl p)
              | Some (Inr state') \<Rightarrow> migrateAddresses pass nextAddress iterator' state'))"

declare migrateAddresses.simps [code]

text \<open>\<open>StorageMigration.Migrate\<close>: the loop, then \<open>Commit\<close>, whose error panics.\<close>

definition StorageMigration_Migrate ::
  "nat \<Rightarrow> ('s \<Rightarrow> address \<times> 's) \<Rightarrow> 's \<Rightarrow> bool \<Rightarrow> Migration list \<Rightarrow> Storage \<times> report list
     \<Rightarrow> (panic + Storage \<times> report list) option" where
  "StorageMigration_Migrate n nextAddress addressIterator reporter migrations state =
     (case migrateAddresses (\<lambda>addr. migrateValuesInAccount n addr reporter migrations)
             nextAddress addressIterator state of
        None \<Rightarrow> None
      | Some (Inl p) \<Rightarrow> Some (Inl p)
      | Some (Inr (storage, reports)) \<Rightarrow>
          (case Storage_Commit storage False of
             (Some err, storage') \<Rightarrow> Some (Inl (CommitError err))
           | (None, storage') \<Rightarrow> Some (Inr (storage', reports))))"

section \<open>Notions used to state the properties of the storage migration\<close>

text \<open>The iterator in state \<open>s\<close> returns the addresses of the list, in order, at its
  next calls.\<close>

fun iteratorYields :: "('s \<Rightarrow> address \<times> 's) \<Rightarrow> 's \<Rightarrow> address list \<Rightarrow> bool" where
  "iteratorYields nextAddress s [] = True"
| "iteratorYields nextAddress s (a # as) =
     (fst (nextAddress s) = a \<and> iteratorYields nextAddress (snd (nextAddress s)) as)"

text \<open>One per-address pass for each address of the list, in order, stopping at the
  first pass that panics or does not return.\<close>

fun perAddressPasses ::
  "(address \<Rightarrow> 'w \<Rightarrow> (panic + 'w) option) \<Rightarrow> address list \<Rightarrow> 'w \<Rightarrow> (panic + 'w) option" where
  "perAddressPasses pass [] state = Some (Inr state)"
| "perAddressPasses pass (a # as) state =
     (case pass a state of
        None \<Rightarrow> None
      | Some (Inl p) \<Rightarrow> Some (Inl p)
      | Some (Inr state') \<Rightarrow> perAddressPasses pass as state')"

text \<open>An iterator over a list of addresses: its state is the rest of the list, and at the
  end of the list it returns the zero address.\<close>

fun sliceNextAddress :: "address list \<Rightarrow> address \<times> address list" where
  "sliceNextAddress [] = (ZeroAddress, [])"
| "sliceNextAddress (a # as) = (a, as)"

section \<open>Notions used to state the properties of the traversal\<close>

text \<open>A leaf is a value that is none of the four containers: \<open>migrateNestedValue\<close>
  handles it in its \<open>default\<close> case.\<close>

fun isLeaf :: "value \<Rightarrow> bool" where
  "isLeaf (SomeValue _) = False"
| "isLeaf (ArrayValue _) = False"
| "isLeaf (CompositeValue _) = False"
| "isLeaf (DictionaryValue _) = False"
| "isLeaf _ = True"

text \<open>Two migrations for the examples: \<open>A\<close> replaces the integer 1 by 2, and \<open>B\<close>
  replaces the integer 2 by 3.\<close>

definition migrationA :: Migration where
  "migrationA = \<lparr> Migration_Name = ''A'',
      Migration_Migrate = (\<lambda>a v. if v = IntValue 1 then Some (IntValue 2) else None) \<rparr>"

definition migrationB :: Migration where
  "migrationB = \<lparr> Migration_Name = ''B'',
      Migration_Migrate = (\<lambda>a v. if v = IntValue 2 then Some (IntValue 3) else None) \<rparr>"

text \<open>A storage for the examples: account 1 stores an optional array under \<open>foo\<close> in the
  storage domain, account 2 an integer under \<open>bar\<close> in the public domain.\<close>

definition exampleStorage :: Storage where
  "exampleStorage =
     \<lparr> storageMaps = [((1, PathDomainStorage), [(''foo'', SomeValue (ArrayValue [IntValue 1]))]),
                      ((2, PathDomainPublic), [(''bar'', IntValue 2)])],
       commitResult = None,
       storageCalls = [] \<rparr>"

text \<open>A migration that replaces the integer 0 by 1 and the integer 1 by 2.\<close>

definition shiftMigration :: Migration where
  "shiftMigration = \<lparr> Migration_Name = ''Shift'',
      Migration_Migrate = (\<lambda>a v. if v = IntValue 0 then Some (IntValue 1)
                                 else if v = IntValue 1 then Some (IntValue 2) else None) \<rparr>"

text \<open>
  A migration that returns a container for a leaf: it replaces the integer 1 by 2 and the
  integer 2 by 1, and the string \<open>x\<close> by a dictionary that holds \<open>x\<close> under the keys 1
  and 2 again.
\<close>

definition loopingDictionary :: "value" where
  "loopingDictionary =
     DictionaryValue [(IntValue 1, StringValue ''x''), (IntValue 2, StringValue ''x'')]"

definition loopingMigration :: Migration where
  "loopingMigration = \<lparr> Migration_Name = ''Loop'',
      Migration_Migrate = (\<lambda>a v. if v = IntValue 1 then Some (IntValue 2)
                                 else if v = IntValue 2 then Some (IntValue 1)
                                 else if v = StringValue ''x'' then Some loopingDictionary
                                 else None) \<rparr>"

text \<open>A storage in which account 1 stores that dictionary.\<close>

definition loopingStorage :: Storage where
  "loopingStorage =
     \<lparr> storageMaps = [((1, PathDomainStorage), [(''foo'', loopingDictionary)])],
       commitResult = None,
       storageCalls = [] \<rparr>"

section \<open>Properties of the static type migration\<close>

subsection \<open>Auxiliary facts about \<open>maybeConvertStaticType\<close>\<close>


text \<open>A capability type without a borrow type hands the nil static type to the nested
  call, which reaches the \<open>default\<close> case and panics.\<close>

lemma CapabilityStaticType_nil_borrow_type:
  "maybeConvertStaticType m (CapabilityStaticType None) = Inl UnreachableError"
  by simp









text \<open>Without converter misuse the loop is a map, and its flag says whether some
  interface type was replaced; with misuse it panics.\<close>

lemma convertInterfaceTypes_ok:
  "\<forall>i\<in>set ts. \<forall>c. convertInterfaceStaticType m i = Some c \<longrightarrow> (\<exists>r. c = InterfaceStaticType r)
   \<Longrightarrow> convertInterfaceTypes m w ts =
        Inr (map (replacementOrSame m) ts, \<exists>i\<in>set ts. convertInterfaceStaticType m i \<noteq> None)"
proof (induction ts)
  case Nil
  then show ?case by simp
next
  case (Cons i ts)
  then have IH: "convertInterfaceTypes m w ts =
        Inr (map (replacementOrSame m) ts, \<exists>i\<in>set ts. convertInterfaceStaticType m i \<noteq> None)"
    by simp
  show ?case
  proof (cases "convertInterfaceStaticType m i")
    case None
    then show ?thesis using IH by (simp add: replacementOrSame_def)
  next
    case (Some c)
    with Cons.prems obtain r where "c = InterfaceStaticType r" by auto
    with Some show ?thesis using IH by (simp add: replacementOrSame_def)
  qed
qed

lemma convertInterfaceTypes_misuse:
  "i \<in> set ts \<Longrightarrow> convertInterfaceStaticType m i = Some c \<Longrightarrow> \<forall>r. c \<noteq> InterfaceStaticType r
   \<Longrightarrow> \<exists>p. convertInterfaceTypes m w ts = Inl p"
proof (induction ts)
  case Nil
  then show ?case by simp
next
  case (Cons j ts)
  show ?case
  proof (cases "convertInterfaceStaticType m j")
    case None
    with Cons have "i \<in> set ts" by auto
    from Cons.IH[OF this Cons.prems(2,3)] None show ?thesis by auto
  next
    case (Some d)
    show ?thesis
    proof (cases "\<exists>r. d = InterfaceStaticType r")
      case True
      then obtain r where d: "d = InterfaceStaticType r" by blast
      have "i \<in> set ts" using Cons.prems Some d by auto
      from Cons.IH[OF this Cons.prems(2,3)] Some d show ?thesis by auto
    next
      case False
      with Some show ?thesis by (cases d) auto
    qed
  qed
qed

lemma replacementOrSame_unchanged:
  "\<forall>i\<in>set ts. convertInterfaceStaticType m i = None \<Longrightarrow> map (replacementOrSame m) ts = ts"
  by (induction ts) (simp_all add: replacementOrSame_def)

text \<open>An intersection type equals every intersection type with the same interface types.\<close>

lemma Intersection_Equal_refl:
  "IntersectionStaticType_Equal ts l (IntersectionStaticType ts l')"
  by (auto simp: list_all_iff list_ex_iff)

lemma authAccountEntitlements_ordered_set:
  "foldl TypeIDOrderedSet_Set [] authAccountEntitlements = authAccountEntitlements"
  by (simp add: authAccountEntitlements_def TypeIDOrderedSet_Set_def StorageType_ID_def
      ContractsType_ID_def KeysType_ID_def InboxType_ID_def CapabilitiesType_ID_def)

lemma assertReferenceStaticType_Inr:
  "assertReferenceStaticType c = Inr r \<Longrightarrow> r = c"
  by (cases c) auto

subsection \<open>Claim C1: idempotence of the conversion\<close>




subsection \<open>Claim C2: forced rebuild of intersection types\<close>

text \<open>
  Claim C2 (as stated): every intersection type with two or more interface types is
  rebuilt.  This fails where an interface type converter returns a type that is not an
  interface type: the conversion panics instead of returning a rebuilt intersection type.
\<close>

theorem C2_intersection_forced_rebuild_counterexample:
  "maybeConvertStaticType misconfiguredMigration
     (IntersectionStaticType [Interface None ''I1'', Interface None ''I2''] None)
   = Inl (InvalidNonInterfaceReplacement
            (IntersectionStaticType [Interface None ''I1'', Interface None ''I2''] None)
            (Interface None ''I1'')
            (PrimitiveStaticType PrimitiveStaticTypeAccount))"
  by (simp add: misconfiguredMigration_def convertInterfaceStaticType_def)

text \<open>
  Claim C2 (amended): when every replacement of an interface type of the intersection
  type is an interface type, and the conversion of the legacy type (if there is one)
  returns, then \<open>maybeConvertStaticType\<close> returns a rebuilt intersection type whenever
  there are two or more interface types, or an interface type was replaced, or the legacy
  type was replaced; the rebuilt type holds the replaced interface types in order and the
  replaced (else the original) legacy type.  With exactly two unchanged interface types
  the type is still rebuilt, and the rebuilt type is \<open>Equal\<close> to the original.  With
  fewer than two interface types and nothing replaced the result is nil.
\<close>

theorem C2_intersection_forced_rebuild:
  assumes interfaces:
    "\<forall>i\<in>set types. \<forall>c. convertInterfaceStaticType m i = Some c \<longrightarrow> (\<exists>r. c = InterfaceStaticType r)"
  and legacy:
    "(case legacyType of None \<Rightarrow> Inr None | Some l \<Rightarrow> maybeConvertStaticType m l) = Inr convertedLegacyType"
  shows
    "(2 \<le> length types \<or> (\<exists>i\<in>set types. convertInterfaceStaticType m i \<noteq> None)
        \<or> convertedLegacyType \<noteq> None \<longrightarrow>
      maybeConvertStaticType m (IntersectionStaticType types legacyType) =
        Inr (Some (IntersectionStaticType (map (replacementOrSame m) types)
               (case convertedLegacyType of Some l \<Rightarrow> Some l | None \<Rightarrow> legacyType))))
     \<and> (length types = 2 \<and> (\<forall>i\<in>set types. convertInterfaceStaticType m i = None) \<longrightarrow>
          (\<exists>l'. maybeConvertStaticType m (IntersectionStaticType types legacyType) =
             Inr (Some (IntersectionStaticType types l'))
           \<and> IntersectionStaticType_Equal types l' (IntersectionStaticType types legacyType)))
     \<and> (length types < 2 \<and> (\<forall>i\<in>set types. convertInterfaceStaticType m i = None)
          \<and> convertedLegacyType = None \<longrightarrow>
          maybeConvertStaticType m (IntersectionStaticType types legacyType) = Inr None)"
proof -
  have loop: "convertInterfaceTypes m (IntersectionStaticType types legacyType) types =
        Inr (map (replacementOrSame m) types, \<exists>i\<in>set types. convertInterfaceStaticType m i \<noteq> None)"
    using convertInterfaceTypes_ok[OF interfaces] .
  have res: "maybeConvertStaticType m (IntersectionStaticType types legacyType) =
     (if 2 \<le> length types \<or> (\<exists>i\<in>set types. convertInterfaceStaticType m i \<noteq> None)
          \<or> convertedLegacyType \<noteq> None
      then Inr (Some (IntersectionStaticType (map (replacementOrSame m) types)
               (case convertedLegacyType of Some l \<Rightarrow> Some l | None \<Rightarrow> legacyType)))
      else Inr None)"
    using loop legacy by simp
  have one: "2 \<le> length types \<or> (\<exists>i\<in>set types. convertInterfaceStaticType m i \<noteq> None)
        \<or> convertedLegacyType \<noteq> None \<longrightarrow>
      maybeConvertStaticType m (IntersectionStaticType types legacyType) =
        Inr (Some (IntersectionStaticType (map (replacementOrSame m) types)
               (case convertedLegacyType of Some l \<Rightarrow> Some l | None \<Rightarrow> legacyType)))"
    using res by simp
  have two: "length types = 2 \<and> (\<forall>i\<in>set types. convertInterfaceStaticType m i = None) \<longrightarrow>
          (\<exists>l'. maybeConvertStaticType m (IntersectionStaticType types legacyType) =
             Inr (Some (IntersectionStaticType types l'))
           \<and> IntersectionStaticType_Equal types l' (IntersectionStaticType types legacyType))"
  proof
    assume h: "length types = 2 \<and> (\<forall>i\<in>set types. convertInterfaceStaticType m i = None)"
    then have "map (replacementOrSame m) types = types" using replacementOrSame_unchanged by blast
    with res h have "maybeConvertStaticType m (IntersectionStaticType types legacyType) =
        Inr (Some (IntersectionStaticType types
               (case convertedLegacyType of Some l \<Rightarrow> Some l | None \<Rightarrow> legacyType)))"
      by simp
    then show "\<exists>l'. maybeConvertStaticType m (IntersectionStaticType types legacyType) =
             Inr (Some (IntersectionStaticType types l'))
           \<and> IntersectionStaticType_Equal types l' (IntersectionStaticType types legacyType)"
      using Intersection_Equal_refl by blast
  qed
  have three: "length types < 2 \<and> (\<forall>i\<in>set types. convertInterfaceStaticType m i = None)
          \<and> convertedLegacyType = None \<longrightarrow>
          maybeConvertStaticType m (IntersectionStaticType types legacyType) = Inr None"
    using res by auto
  show ?thesis using one two three by blast
qed

text \<open>Witness for C2: two unchanged interface types (rebuilt, equal), one interface type
  with a replaced legacy type (rebuilt), one interface type alone (nil).\<close>

theorem C2_intersection_forced_rebuild_witness:
  "maybeConvertStaticType NewStaticTypeMigration
     (IntersectionStaticType [Interface None ''I1'', Interface None ''I2''] None)
   = Inr (Some (IntersectionStaticType [Interface None ''I1'', Interface None ''I2''] None))
   \<and> IntersectionStaticType_Equal [Interface None ''I1'', Interface None ''I2''] None
       (IntersectionStaticType [Interface None ''I1'', Interface None ''I2''] None)
   \<and> maybeConvertStaticType NewStaticTypeMigration
       (IntersectionStaticType [Interface None ''I1''] (Some (PrimitiveStaticType PrimitiveStaticTypeAuthAccount)))
     = Inr (Some (IntersectionStaticType [Interface None ''I1''] (Some authAccountReferenceType)))
   \<and> maybeConvertStaticType NewStaticTypeMigration
       (IntersectionStaticType [Interface None ''I1''] None) = Inr None"
proof -
  let ?m = NewStaticTypeMigration
  have conv: "\<And>i. convertInterfaceStaticType ?m i = None"
    by (simp add: NewStaticTypeMigration_def convertInterfaceStaticType_def)
  have same: "\<And>ts. map (replacementOrSame ?m) ts = ts"
    by (simp add: map_idI replacementOrSame_def conv)
  have h: "\<And>ts. \<forall>i\<in>set ts. \<forall>c. convertInterfaceStaticType ?m i = Some c \<longrightarrow> (\<exists>r. c = InterfaceStaticType r)"
    by (simp add: conv)
  have l0: "(case None of None \<Rightarrow> Inr None | Some l \<Rightarrow> maybeConvertStaticType ?m l) = Inr None"
    by simp
  have l1: "(case Some (PrimitiveStaticType PrimitiveStaticTypeAuthAccount) of None \<Rightarrow> Inr None
             | Some l \<Rightarrow> maybeConvertStaticType ?m l) = Inr (Some authAccountReferenceType)"
    by simp
  show ?thesis
    using C2_intersection_forced_rebuild [OF h l0, of "[Interface None ''I1'', Interface None ''I2'']"]
          C2_intersection_forced_rebuild [OF h l1, of "[Interface None ''I1'']"]
          C2_intersection_forced_rebuild [OF h l0, of "[Interface None ''I1'']"]
    by (simp add: conv same)
qed

subsection \<open>Claim C3: the legacy account kinds\<close>

text \<open>
  Claim C3: \<open>PrimitiveStaticTypeAuthAccount\<close> is converted to the reference type to the
  primitive type \<open>Account\<close> whose authorization is the conjunction entitlement set of
  exactly the type IDs of Storage, Contracts, Keys, Inbox and Capabilities;
  \<open>PrimitiveStaticTypePublicAccount\<close> is converted to the unauthorized reference type to
  \<open>Account\<close>; a primitive kind outside the lookup table is converted to nil.
\<close>

theorem C3_primitive_account_conversion:
  "maybeConvertStaticType m (PrimitiveStaticType PrimitiveStaticTypeAuthAccount)
     = Inr (Some authAccountReferenceType)
   \<and> ReferencedType authAccountReferenceType = PrimitiveStaticType PrimitiveStaticTypeAccount
   \<and> SetKind (Authorization authAccountReferenceType) = Conjunction
   \<and> set (Entitlements (Authorization authAccountReferenceType))
       = {StorageType_ID, ContractsType_ID, KeysType_ID, InboxType_ID, CapabilitiesType_ID}
   \<and> distinct (Entitlements (Authorization authAccountReferenceType))
   \<and> maybeConvertStaticType m (PrimitiveStaticType PrimitiveStaticTypePublicAccount)
     = Inr (Some unauthorizedAccountReferenceType)
   \<and> ReferencedType unauthorizedAccountReferenceType = PrimitiveStaticType PrimitiveStaticTypeAccount
   \<and> Authorization unauthorizedAccountReferenceType = Unauthorized
   \<and> (p \<notin> {PrimitiveStaticTypePublicAccount, PrimitiveStaticTypeAuthAccount,
             PrimitiveStaticTypeAuthAccountCapabilities, PrimitiveStaticTypePublicAccountCapabilities,
             PrimitiveStaticTypeAuthAccountAccountCapabilities,
             PrimitiveStaticTypeAuthAccountStorageCapabilities,
             PrimitiveStaticTypeAuthAccountContracts, PrimitiveStaticTypePublicAccountContracts,
             PrimitiveStaticTypeAuthAccountKeys, PrimitiveStaticTypePublicAccountKeys,
             PrimitiveStaticTypeAuthAccountInbox, PrimitiveStaticTypeAccountKey}
        \<longrightarrow> maybeConvertStaticType m (PrimitiveStaticType p) = Inr None)"
proof -
  have ents: "Entitlements (Authorization authAccountReferenceType) = authAccountEntitlements"
    by (simp add: authAccountReferenceType_def NewEntitlementSetAuthorization_def
        authAccountEntitlements_ordered_set)
  have d: "distinct authAccountEntitlements"
    by (simp add: authAccountEntitlements_def StorageType_ID_def
      ContractsType_ID_def KeysType_ID_def InboxType_ID_def CapabilitiesType_ID_def)
  have s: "set authAccountEntitlements
       = {StorageType_ID, ContractsType_ID, KeysType_ID, InboxType_ID, CapabilitiesType_ID}"
    by (simp add: authAccountEntitlements_def)
  have k: "SetKind (Authorization authAccountReferenceType) = Conjunction"
    by (simp add: authAccountReferenceType_def NewEntitlementSetAuthorization_def)
  have other: "p \<notin> {PrimitiveStaticTypePublicAccount, PrimitiveStaticTypeAuthAccount,
             PrimitiveStaticTypeAuthAccountCapabilities, PrimitiveStaticTypePublicAccountCapabilities,
             PrimitiveStaticTypeAuthAccountAccountCapabilities,
             PrimitiveStaticTypeAuthAccountStorageCapabilities,
             PrimitiveStaticTypeAuthAccountContracts, PrimitiveStaticTypePublicAccountContracts,
             PrimitiveStaticTypeAuthAccountKeys, PrimitiveStaticTypePublicAccountKeys,
             PrimitiveStaticTypeAuthAccountInbox, PrimitiveStaticTypeAccountKey}
        \<longrightarrow> maybeConvertStaticType m (PrimitiveStaticType p) = Inr None"
    by (cases p) simp_all
  show ?thesis
    using ents d s k other
    by (simp add: authAccountReferenceType_def unauthorizedAccountReferenceType_def)
qed

text \<open>Witness for C3: the primitive kind \<open>Account\<close> is outside the lookup table.\<close>

theorem C3_primitive_account_conversion_witness:
  "PrimitiveStaticTypeAccount \<notin> {PrimitiveStaticTypePublicAccount, PrimitiveStaticTypeAuthAccount,
             PrimitiveStaticTypeAuthAccountCapabilities, PrimitiveStaticTypePublicAccountCapabilities,
             PrimitiveStaticTypeAuthAccountAccountCapabilities,
             PrimitiveStaticTypeAuthAccountStorageCapabilities,
             PrimitiveStaticTypeAuthAccountContracts, PrimitiveStaticTypePublicAccountContracts,
             PrimitiveStaticTypeAuthAccountKeys, PrimitiveStaticTypePublicAccountKeys,
             PrimitiveStaticTypeAuthAccountInbox, PrimitiveStaticTypeAccountKey}
   \<and> maybeConvertStaticType NewStaticTypeMigration (PrimitiveStaticType PrimitiveStaticTypeAccount)
       = Inr None"
  using C3_primitive_account_conversion [of NewStaticTypeMigration PrimitiveStaticTypeAccount]
  by simp

subsection \<open>Claim C4: reference types\<close>

text \<open>
  Claim C4: for a reference type whose referenced type is converted to a replacement, the
  result is that replacement itself when it is one of the two account reference types
  (whose referenced type is the primitive type \<open>Account\<close>, so no reference to a reference
  arises), and otherwise a new reference type with the same authorization and the
  converted referenced type; when the referenced type is converted to nil, so is the
  reference type.
\<close>

theorem C4_reference_conversion:
  "(maybeConvertStaticType m referencedType = Inr (Some converted) \<longrightarrow>
      (if converted = authAccountReferenceType \<or> converted = unauthorizedAccountReferenceType
       then maybeConvertStaticType m (ReferenceStaticType obj auth referencedType)
              = Inr (Some converted)
            \<and> ReferencedType converted = PrimitiveStaticType PrimitiveStaticTypeAccount
       else maybeConvertStaticType m (ReferenceStaticType obj auth referencedType)
              = Inr (Some (ReferenceStaticType Allocated auth converted))))
   \<and> (maybeConvertStaticType m referencedType = Inr None \<longrightarrow>
        maybeConvertStaticType m (ReferenceStaticType obj auth referencedType) = Inr None)"
  by (auto simp: NewReferenceStaticType_def authAccountReferenceType_def
      unauthorizedAccountReferenceType_def)

text \<open>Witness for C4: a reference to \<open>AuthAccount\<close> (collapsed), a reference to an
  optional \<open>PublicAccount\<close> (rebuilt with its authorization), a reference to \<open>Account\<close>
  (nil).\<close>

theorem C4_reference_conversion_witness:
  "maybeConvertStaticType NewStaticTypeMigration (PrimitiveStaticType PrimitiveStaticTypeAuthAccount)
     = Inr (Some authAccountReferenceType)
   \<and> maybeConvertStaticType NewStaticTypeMigration
        (ReferenceStaticType Allocated Unauthorized (PrimitiveStaticType PrimitiveStaticTypeAuthAccount))
     = Inr (Some authAccountReferenceType)
   \<and> maybeConvertStaticType NewStaticTypeMigration
        (OptionalStaticType (PrimitiveStaticType PrimitiveStaticTypePublicAccount))
     = Inr (Some (OptionalStaticType unauthorizedAccountReferenceType))
   \<and> maybeConvertStaticType NewStaticTypeMigration
        (ReferenceStaticType Allocated (EntitlementMapAuthorization ''M'')
           (OptionalStaticType (PrimitiveStaticType PrimitiveStaticTypePublicAccount)))
     = Inr (Some (ReferenceStaticType Allocated (EntitlementMapAuthorization ''M'')
                    (OptionalStaticType unauthorizedAccountReferenceType)))
   \<and> maybeConvertStaticType NewStaticTypeMigration (PrimitiveStaticType PrimitiveStaticTypeAccount)
     = Inr None
   \<and> maybeConvertStaticType NewStaticTypeMigration
        (ReferenceStaticType Allocated Unauthorized (PrimitiveStaticType PrimitiveStaticTypeAccount))
     = Inr None"
proof -
  let ?m = NewStaticTypeMigration
  have a: "maybeConvertStaticType ?m (PrimitiveStaticType PrimitiveStaticTypeAuthAccount)
     = Inr (Some authAccountReferenceType)" by simp
  have b: "maybeConvertStaticType ?m
        (OptionalStaticType (PrimitiveStaticType PrimitiveStaticTypePublicAccount))
     = Inr (Some (OptionalStaticType unauthorizedAccountReferenceType))" by simp
  have b': "OptionalStaticType unauthorizedAccountReferenceType \<noteq> authAccountReferenceType
     \<and> OptionalStaticType unauthorizedAccountReferenceType \<noteq> unauthorizedAccountReferenceType"
    by (simp add: authAccountReferenceType_def unauthorizedAccountReferenceType_def)
  have c: "maybeConvertStaticType ?m (PrimitiveStaticType PrimitiveStaticTypeAccount) = Inr None"
    by simp
  show ?thesis
    using a b b' c
      C4_reference_conversion [of ?m "PrimitiveStaticType PrimitiveStaticTypeAuthAccount"
        authAccountReferenceType Allocated Unauthorized]
      C4_reference_conversion [of ?m
        "OptionalStaticType (PrimitiveStaticType PrimitiveStaticTypePublicAccount)"
        "OptionalStaticType unauthorizedAccountReferenceType" Allocated
        "EntitlementMapAuthorization ''M''"]
      C4_reference_conversion [of ?m "PrimitiveStaticType PrimitiveStaticTypeAccount"
        "PrimitiveStaticType PrimitiveStaticTypeAccount" Allocated Unauthorized]
    by simp
qed

subsection \<open>Claim C9: \<open>StaticTypeMigration.Migrate\<close> returns no error\<close>

text \<open>
  Claim C9 (as stated): for every input value \<open>StaticTypeMigration.Migrate\<close> returns a
  nil error.  This fails where the conversion of the embedded type panics, as it does by
  design when a converter replaces an interface type of an intersection type by a type
  that is not an interface type: the call then does not return at all.
\<close>

theorem C9_migrate_error_counterexample:
  "StaticTypeMigration_Migrate misconfiguredMigration (1, ''k'') ''k''
     (TypeValue (IntersectionStaticType [Interface None ''I1''] None))
   = Inl (InvalidNonInterfaceReplacement
            (IntersectionStaticType [Interface None ''I1''] None)
            (Interface None ''I1'')
            (PrimitiveStaticType PrimitiveStaticTypeAccount))"
  by (simp add: misconfiguredMigration_def convertInterfaceStaticType_def)

text \<open>
  Claim C9 (amended): whenever \<open>StaticTypeMigration.Migrate\<close> returns, its error is nil:
  for every input value the call either panics or returns a nil error, so it never
  reports a recoverable error; and for a value that is not of a type-shaped kind it
  returns no replacement and no error.
\<close>

theorem C9_migrate_error:
  "((\<exists>p. StaticTypeMigration_Migrate m sk smk v = Inl p) \<or> (\<exists>newValue. StaticTypeMigration_Migrate m sk smk v = Inr (newValue, None)))
   \<and> (\<not> typeShaped v \<longrightarrow> StaticTypeMigration_Migrate m sk smk v = Inr (None, None))"
  by (cases v) (auto split: sum.splits option.splits)

text \<open>Witness for C9: an integer value is not type-shaped.\<close>

theorem C9_migrate_error_witness:
  "\<not> typeShaped (IntValue 5)
   \<and> StaticTypeMigration_Migrate NewStaticTypeMigration (1, ''k'') ''k'' (IntValue 5) = Inr (None, None)"
  using C9_migrate_error [of NewStaticTypeMigration "(1, ''k'')" "''k''" "IntValue 5"]
  by simp

subsection \<open>Claim C10: the payload of a migrated value\<close>

text \<open>
  Claim C10: when \<open>StaticTypeMigration.Migrate\<close> returns a replacement for a type-shaped
  value, the replacement is the same kind of value with the same payload fields (ID and address;
  path and address; target path; capability ID; capability ID and target path), and its
  type is the converted type.
\<close>

theorem C10_payload_preserved:
  "(StaticTypeMigration_Migrate m sk smk (TypeValue staticType) = Inr (Some newValue, err) \<longrightarrow>
      (\<exists>converted. maybeConvertStaticType m staticType = Inr (Some converted)
         \<and> newValue = TypeValue converted))
   \<and> (StaticTypeMigration_Migrate m sk smk (CapabilityValue capabilityID addr borrowType) = Inr (Some newValue, err) \<longrightarrow>
      (\<exists>converted. maybeConvertStaticType m borrowType = Inr (Some converted)
         \<and> newValue = CapabilityValue capabilityID addr converted))
   \<and> (StaticTypeMigration_Migrate m sk smk (PathCapabilityValue borrowType path addr) = Inr (Some newValue, err) \<longrightarrow>
      (\<exists>converted. maybeConvertStaticType m borrowType = Inr (Some converted)
         \<and> newValue = PathCapabilityValue converted path addr))
   \<and> (StaticTypeMigration_Migrate m sk smk (PathLinkValue borrowType targetPath) = Inr (Some newValue, err) \<longrightarrow>
      (\<exists>converted. maybeConvertStaticType m borrowType = Inr (Some converted)
         \<and> newValue = PathLinkValue converted targetPath))
   \<and> (StaticTypeMigration_Migrate m sk smk (AccountCapabilityControllerValue borrowType capabilityID)
         = Inr (Some newValue, err) \<longrightarrow>
      (\<exists>converted. maybeConvertStaticType m borrowType = Inr (Some converted)
         \<and> newValue = AccountCapabilityControllerValue converted capabilityID))
   \<and> (StaticTypeMigration_Migrate m sk smk (StorageCapabilityControllerValue borrowType capabilityID targetPath)
         = Inr (Some newValue, err) \<longrightarrow>
      (\<exists>converted. maybeConvertStaticType m borrowType = Inr (Some converted)
         \<and> newValue = StorageCapabilityControllerValue converted capabilityID targetPath))"
  by (auto simp: NewTypeValue_def NewUnmeteredCapabilityValue_def
      NewUnmeteredAccountCapabilityControllerValue_def
      NewUnmeteredStorageCapabilityControllerValue_def
      split: sum.splits option.splits dest: assertReferenceStaticType_Inr)

text \<open>Witness for C10: one value of each type-shaped kind.\<close>

theorem C10_payload_preserved_witness:
  "StaticTypeMigration_Migrate NewStaticTypeMigration (1, ''k'') ''k''
     (TypeValue (PrimitiveStaticType PrimitiveStaticTypeAuthAccount))
     = Inr (Some (TypeValue authAccountReferenceType), None)
   \<and> StaticTypeMigration_Migrate NewStaticTypeMigration (1, ''k'') ''k''
     (CapabilityValue 7 1 (ReferenceStaticType Allocated Unauthorized
        (PrimitiveStaticType PrimitiveStaticTypePublicAccount)))
     = Inr (Some (CapabilityValue 7 1 unauthorizedAccountReferenceType), None)
   \<and> StaticTypeMigration_Migrate NewStaticTypeMigration (1, ''k'') ''k''
     (PathCapabilityValue (ReferenceStaticType Allocated Unauthorized
        (PrimitiveStaticType PrimitiveStaticTypePublicAccount)) (PathValue PathDomainPublic ''p'') 1)
     = Inr (Some (PathCapabilityValue unauthorizedAccountReferenceType
                    (PathValue PathDomainPublic ''p'') 1), None)
   \<and> StaticTypeMigration_Migrate NewStaticTypeMigration (1, ''k'') ''k''
     (PathLinkValue (ReferenceStaticType Allocated Unauthorized
        (PrimitiveStaticType PrimitiveStaticTypePublicAccount)) (PathValue PathDomainStorage ''t''))
     = Inr (Some (PathLinkValue unauthorizedAccountReferenceType
                    (PathValue PathDomainStorage ''t'')), None)
   \<and> StaticTypeMigration_Migrate NewStaticTypeMigration (1, ''k'') ''k''
     (AccountCapabilityControllerValue (ReferenceStaticType Allocated Unauthorized
        (PrimitiveStaticType PrimitiveStaticTypeAuthAccount)) 3)
     = Inr (Some (AccountCapabilityControllerValue authAccountReferenceType 3), None)
   \<and> StaticTypeMigration_Migrate NewStaticTypeMigration (1, ''k'') ''k''
     (StorageCapabilityControllerValue (ReferenceStaticType Allocated Unauthorized
        (OptionalStaticType (PrimitiveStaticType PrimitiveStaticTypeAuthAccount))) 4
        (PathValue PathDomainStorage ''t''))
     = Inr (Some (StorageCapabilityControllerValue
                    (ReferenceStaticType Allocated Unauthorized
                       (OptionalStaticType authAccountReferenceType)) 4
                    (PathValue PathDomainStorage ''t'')), None)"
proof -
  let ?m = NewStaticTypeMigration
  let ?r = "ReferenceStaticType Allocated Unauthorized
        (PrimitiveStaticType PrimitiveStaticTypePublicAccount)"
  have ne: "OptionalStaticType authAccountReferenceType \<noteq> authAccountReferenceType"
       "OptionalStaticType authAccountReferenceType \<noteq> unauthorizedAccountReferenceType"
    by (simp_all add: authAccountReferenceType_def unauthorizedAccountReferenceType_def)
  have a1: "StaticTypeMigration_Migrate ?m (1, ''k'') ''k''
     (TypeValue (PrimitiveStaticType PrimitiveStaticTypeAuthAccount))
     = Inr (Some (TypeValue authAccountReferenceType), None)"
    by (simp add: NewTypeValue_def)
  have a2: "StaticTypeMigration_Migrate ?m (1, ''k'') ''k'' (CapabilityValue 7 1 ?r)
     = Inr (Some (CapabilityValue 7 1 unauthorizedAccountReferenceType), None)"
    by (simp add: NewUnmeteredCapabilityValue_def)
  have a3: "StaticTypeMigration_Migrate ?m (1, ''k'') ''k'' (PathCapabilityValue ?r (PathValue PathDomainPublic ''p'') 1)
     = Inr (Some (PathCapabilityValue unauthorizedAccountReferenceType
                    (PathValue PathDomainPublic ''p'') 1), None)"
    by simp
  have a4: "StaticTypeMigration_Migrate ?m (1, ''k'') ''k'' (PathLinkValue ?r (PathValue PathDomainStorage ''t''))
     = Inr (Some (PathLinkValue unauthorizedAccountReferenceType
                    (PathValue PathDomainStorage ''t'')), None)"
    by simp
  have a5: "StaticTypeMigration_Migrate ?m (1, ''k'') ''k''
     (AccountCapabilityControllerValue (ReferenceStaticType Allocated Unauthorized
        (PrimitiveStaticType PrimitiveStaticTypeAuthAccount)) 3)
     = Inr (Some (AccountCapabilityControllerValue authAccountReferenceType 3), None)"
    by (simp add: NewUnmeteredAccountCapabilityControllerValue_def authAccountReferenceType_def)
  have a6: "StaticTypeMigration_Migrate ?m (1, ''k'') ''k''
     (StorageCapabilityControllerValue (ReferenceStaticType Allocated Unauthorized
        (OptionalStaticType (PrimitiveStaticType PrimitiveStaticTypeAuthAccount))) 4
        (PathValue PathDomainStorage ''t''))
     = Inr (Some (StorageCapabilityControllerValue
                    (ReferenceStaticType Allocated Unauthorized
                       (OptionalStaticType authAccountReferenceType)) 4
                    (PathValue PathDomainStorage ''t'')), None)"
    using ne by (simp add: NewUnmeteredStorageCapabilityControllerValue_def NewReferenceStaticType_def)
  show ?thesis
    using a1 a2 a3 a4 a5 a6
      C10_payload_preserved [of ?m "(1, ''k'')" "''k''"
        "PrimitiveStaticType PrimitiveStaticTypeAuthAccount" "TypeValue authAccountReferenceType"
        None]
      C10_payload_preserved [of ?m "(1, ''k'')" "''k''" _
        "CapabilityValue 7 1 unauthorizedAccountReferenceType" None 7 1 ?r]
      C10_payload_preserved [of ?m "(1, ''k'')" "''k''" _
        "PathCapabilityValue unauthorizedAccountReferenceType (PathValue PathDomainPublic ''p'') 1"
        None _ 1 ?r "PathValue PathDomainPublic ''p''"]
      C10_payload_preserved [of ?m "(1, ''k'')" "''k''" _
        "PathLinkValue unauthorizedAccountReferenceType (PathValue PathDomainStorage ''t'')"
        None _ _ ?r _ "PathValue PathDomainStorage ''t''"]
      C10_payload_preserved [of ?m "(1, ''k'')" "''k''" _
        "AccountCapabilityControllerValue authAccountReferenceType 3" None 3 _
        "ReferenceStaticType Allocated Unauthorized
           (PrimitiveStaticType PrimitiveStaticTypeAuthAccount)"]
      C10_payload_preserved [of ?m "(1, ''k'')" "''k''" _
        "StorageCapabilityControllerValue
           (ReferenceStaticType Allocated Unauthorized
              (OptionalStaticType authAccountReferenceType)) 4
           (PathValue PathDomainStorage ''t'')" None 4 _
        "ReferenceStaticType Allocated Unauthorized
           (OptionalStaticType (PrimitiveStaticType PrimitiveStaticTypeAuthAccount))"
        _ "PathValue PathDomainStorage ''t''"]
    by simp
qed

section \<open>Properties of the storage migration\<close>

subsection \<open>Auxiliary facts about the traversal and the runner\<close>

text \<open>A leaf is handled by the leaf case, and keeps its state.\<close>

lemma migrateNestedValueWith_leaf:
  "isLeaf v \<Longrightarrow> migrateNestedValueWith leaf (Suc n) v =
     Some (Inr (v, fst (leaf v), snd (leaf v)))"
  by (cases v) (simp_all add: case_prod_beta)


text \<open>With an iterator that returns the addresses of a list and then the zero address,
  the loop runs one pass for each address of the list, in order.\<close>

lemma migrateAddresses_yields:
  "iteratorYields nextAddress s (as @ [ZeroAddress]) \<Longrightarrow> ZeroAddress \<notin> set as \<Longrightarrow>
   migrateAddresses pass nextAddress s state = perAddressPasses pass as state"
proof (induction as arbitrary: s state)
  case Nil
  then show ?case
    by (subst migrateAddresses.simps) (simp add: case_prod_beta)
next
  case (Cons a as)
  from Cons.prems have a: "fst (nextAddress s) = a" "a \<noteq> ZeroAddress"
    and rest: "iteratorYields nextAddress (snd (nextAddress s)) (as @ [ZeroAddress])"
              "ZeroAddress \<notin> set as"
    by auto
  show ?case
  proof (cases "pass a state")
    case None
    then show ?thesis using a by (subst migrateAddresses.simps) (simp add: case_prod_beta)
  next
    case (Some r)
    show ?thesis
    proof (cases r)
      case (Inl p)
      with Some show ?thesis using a by (subst migrateAddresses.simps) (simp add: case_prod_beta)
    next
      case (Inr state')
      with Some show ?thesis using a Cons.IH[OF rest, of state']
        by (subst migrateAddresses.simps) (simp add: case_prod_beta)
    qed
  qed
qed

text \<open>A pass that returns has made one \<open>ForEachValue\<close> call for its address and has left
  the result of \<open>Commit\<close> alone.\<close>

lemma migrateValuesInAccount_calls:
  "migrateValuesInAccount n a reporter migrations (storage, reports) = Some (Inr (storage', reports'))
   \<Longrightarrow> storageCalls storage' = storageCalls storage @ [ForEachValueCall a]
       \<and> commitResult storage' = commitResult storage"
  by (auto simp: migrateValuesInAccount_def split: option.splits sum.splits)

lemma perAddressPasses_calls:
  "perAddressPasses (\<lambda>addr. migrateValuesInAccount n addr reporter migrations) as (storage, reports)
     = Some (Inr (storage', reports'))
   \<Longrightarrow> storageCalls storage' = storageCalls storage @ map ForEachValueCall as
       \<and> commitResult storage' = commitResult storage"
proof (induction as arbitrary: storage reports)
  case Nil
  then show ?case by simp
next
  case (Cons a as)
  from Cons.prems obtain st1 r1 where
    p: "migrateValuesInAccount n a reporter migrations (storage, reports) = Some (Inr (st1, r1))"
    and r: "perAddressPasses (\<lambda>addr. migrateValuesInAccount n addr reporter migrations) as (st1, r1)
     = Some (Inr (storage', reports'))"
    by (auto split: option.splits sum.splits)
  from migrateValuesInAccount_calls[OF p] Cons.IH[OF r] show ?case by simp
qed

text \<open>A nested call that returns a replacement has left its argument as it was: only a
  leaf, or an optional around one, is replaced.\<close>

lemma migrateNestedValueWith_replaced_state:
  "migrateNestedValueWith leaf n v = Some (Inr (v', Some r, calls)) \<Longrightarrow> v' = v"
proof (induction n arbitrary: v v' r calls)
  case 0
  then show ?case by simp
next
  case (Suc n)
  show ?case
  proof (cases v)
    case (SomeValue inner)
    with Suc.prems obtain inner' r' where
      "migrateNestedValueWith leaf n inner = Some (Inr (inner', Some r', calls))"
      "v' = SomeValue inner'"
      by (auto split: option.splits sum.splits)
    with Suc.IH SomeValue show ?thesis by blast
  qed (use Suc.prems in \<open>auto split: option.splits sum.splits prod.splits\<close>)
qed

text \<open>One iteration of the dictionary loop leaves every key alone that is neither the key
  of the iteration nor its replacement; an iteration that replaces the key \<open>k1\<close> by
  \<open>k2\<close> moves the value to \<open>k2\<close> and removes \<open>k1\<close>.\<close>

lemma map_of_replaceEntry_other:
  "x \<noteq> k \<Longrightarrow> x \<noteq> fst e \<Longrightarrow> map_of (replaceEntry k e entries) x = map_of entries x"
  by (induction entries) (auto simp: replaceEntry_def)

lemma dictionaryStep_other:
  assumes "x \<noteq> k0" "x \<noteq> k'" "newKey \<noteq> Some x"
  shows "map_of (dictionaryStep entries k0 k' newKey v' newValue) x = map_of entries x"
proof (cases newKey)
  case None
  then show ?thesis using assms
    by (cases newValue)
       (simp_all add: dictionaryStep_def Let_def map_of_replaceEntry_other update_conv')
next
  case (Some nk)
  with assms have "x \<noteq> nk" by simp
  with Some assms show ?thesis
    by (simp add: dictionaryStep_def Let_def map_of_replaceEntry_other update_conv'
        delete_conv' DictionaryValue_RemoveKey_def)
qed

lemma dictionaryStep_moved:
  assumes "k2 \<noteq> k1"
  shows "map_of (dictionaryStep entries k1 k1 (Some k2) v1 None) k2 = Some v1
       \<and> map_of (dictionaryStep entries k1 k1 (Some k2) v1 None) k1 = None"
  using assms
  by (simp add: dictionaryStep_def Let_def update_conv' delete_conv' DictionaryValue_RemoveKey_def)

text \<open>The dictionary loop over keys that are not \<open>x\<close> and are not replaced by \<open>x\<close>
  leaves the entry of \<open>x\<close> alone; a loop that returns can be cut in two.\<close>

lemma migrateDictionaryKeys_other:
  assumes "\<forall>k\<in>set ks. k \<noteq> x \<and>
             (\<forall>k' newKey calls. nested k = Some (Inr (k', newKey, calls)) \<longrightarrow>
                k' \<noteq> x \<and> newKey \<noteq> Some x)"
  shows "migrateDictionaryKeys nested entries ks = Some (Inr (entries', calls))
         \<Longrightarrow> map_of entries' x = map_of entries x"
  using assms
proof (induction ks arbitrary: entries calls)
  case Nil
  then show ?case by simp
next
  case (Cons k ks)
  from Cons.prems(1) obtain v k' newKey c1 v' newValue c2 c3 where
    g: "DictionaryValue_Get entries k = Some v"
    and nk: "nested k = Some (Inr (k', newKey, c1))"
    and nv: "nested v = Some (Inr (v', newValue, c2))"
    and rest: "migrateDictionaryKeys nested (dictionaryStep entries k k' newKey v' newValue) ks
                 = Some (Inr (entries', c3))"
    by (auto split: option.splits sum.splits)
  from Cons.prems(2) nk have ne: "x \<noteq> k" "x \<noteq> k'" "newKey \<noteq> Some x" by auto
  from Cons.prems(2) have
    "\<forall>k\<in>set ks. k \<noteq> x \<and>
             (\<forall>k' newKey calls. nested k = Some (Inr (k', newKey, calls)) \<longrightarrow>
                k' \<noteq> x \<and> newKey \<noteq> Some x)" by simp
  from Cons.IH[OF rest this] dictionaryStep_other[OF ne]
  show ?case by simp
qed

lemma migrateDictionaryKeys_append:
  "migrateDictionaryKeys nested entries (xs @ ys) = Some (Inr (entries', calls)) \<Longrightarrow>
   \<exists>entries1 c1 c2. migrateDictionaryKeys nested entries xs = Some (Inr (entries1, c1))
      \<and> migrateDictionaryKeys nested entries1 ys = Some (Inr (entries', c2))"
proof (induction xs arbitrary: entries calls)
  case Nil
  then show ?case by simp
next
  case (Cons k ks)
  from Cons.prems obtain v k' newKey c1 v' newValue c2 c3 where
    g: "DictionaryValue_Get entries k = Some v"
    and nk: "nested k = Some (Inr (k', newKey, c1))"
    and nv: "nested v = Some (Inr (v', newValue, c2))"
    and rest: "migrateDictionaryKeys nested (dictionaryStep entries k k' newKey v' newValue) (ks @ ys)
                 = Some (Inr (entries', c3))"
    by (auto split: option.splits sum.splits)
  from Cons.IH[OF rest] obtain entries1 d1 d2 where
    "migrateDictionaryKeys nested (dictionaryStep entries k k' newKey v' newValue) ks
       = Some (Inr (entries1, d1))"
    "migrateDictionaryKeys nested entries1 ys = Some (Inr (entries', d2))" by blast
  with g nk nv show ?case by simp
qed

text \<open>More fuel changes nothing for a traversal that returns: the three loops are
  monotone in the nested call, and so are the traversal, \<open>ForEachValue\<close>, a
  per-address pass and the passes over a list of addresses.\<close>

lemma migrateArrayElements_mono:
  assumes "\<And>v r. f v = Some r \<Longrightarrow> g v = Some r"
  shows "migrateArrayElements f es = Some r \<Longrightarrow> migrateArrayElements g es = Some r"
proof (induction es arbitrary: r)
  case Nil
  then show ?case by simp
next
  case (Cons e es)
  from Cons.prems obtain x where x: "f e = Some x"
    by (auto split: option.splits)
  then have gx: "g e = Some x" by (rule assms)
  show ?case
  proof (cases x)
    case (Inl p)
    with Cons.prems x gx show ?thesis by simp
  next
    case (Inr y)
    with Cons.prems x obtain z where z: "migrateArrayElements f es = Some z"
      by (auto split: option.splits prod.splits)
    from Cons.IH[OF z] have "migrateArrayElements g es = Some z" .
    with Cons.prems x gx z Inr show ?thesis by (simp split: prod.splits)
  qed
qed

lemma migrateCompositeFields_mono:
  assumes "\<And>v r. f v = Some r \<Longrightarrow> g v = Some r"
  shows "migrateCompositeFields f members names = Some r
         \<Longrightarrow> migrateCompositeFields g members names = Some r"
proof (induction names arbitrary: members r)
  case Nil
  then show ?case by simp
next
  case (Cons name names)
  show ?case
  proof (cases "CompositeValue_GetField members name")
    case None
    with Cons.prems show ?thesis by simp
  next
    case (Some v)
    with Cons.prems obtain x where x: "f v = Some x"
      by (auto split: option.splits)
    then have gx: "g v = Some x" by (rule assms)
    show ?thesis
    proof (cases x)
      case (Inl p)
      with Cons.prems Some x gx show ?thesis by simp
    next
      case (Inr y)
      obtain v' mv c where y: "y = (v', mv, c)" by (cases y) auto
      with Cons.prems Some x Inr obtain z where
        z: "migrateCompositeFields f
              (CompositeValue_SetMember members name (case mv of None \<Rightarrow> v' | Some w \<Rightarrow> w))
              names = Some z"
        by (auto split: option.splits)
      from Cons.IH[OF z] Cons.prems Some x gx Inr y z show ?thesis by simp
    qed
  qed
qed

lemma migrateDictionaryKeys_mono:
  assumes "\<And>v r. f v = Some r \<Longrightarrow> g v = Some r"
  shows "migrateDictionaryKeys f entries ks = Some r
         \<Longrightarrow> migrateDictionaryKeys g entries ks = Some r"
proof (induction ks arbitrary: entries r)
  case Nil
  then show ?case by simp
next
  case (Cons k ks)
  show ?case
  proof (cases "DictionaryValue_Get entries k")
    case None
    with Cons.prems show ?thesis by simp
  next
    case (Some v)
    with Cons.prems obtain x where x: "f k = Some x"
      by (auto split: option.splits)
    then have gx: "g k = Some x" by (rule assms)
    show ?thesis
    proof (cases x)
      case (Inl p)
      with Cons.prems Some x gx show ?thesis by simp
    next
      case (Inr y)
      obtain k' nk c where y: "y = (k', nk, c)" by (cases y) auto
      with Cons.prems Some x Inr obtain x2 where x2: "f v = Some x2"
        by (auto split: option.splits)
      then have gx2: "g v = Some x2" by (rule assms)
      show ?thesis
      proof (cases x2)
        case (Inl p)
        with Cons.prems Some x gx \<open>x = Inr y\<close> y x2 gx2 show ?thesis by simp
      next
        case (Inr y2)
        obtain v' nv c2 where y2: "y2 = (v', nv, c2)" by (cases y2) auto
        with Cons.prems Some x \<open>x = Inr y\<close> y x2 Inr obtain z where
          z: "migrateDictionaryKeys f (dictionaryStep entries k k' nk v' nv) ks = Some z"
          by (auto split: option.splits)
        from Cons.IH[OF z] Cons.prems Some x gx \<open>x = Inr y\<close> y x2 gx2 Inr y2 z
        show ?thesis by simp
      qed
    qed
  qed
qed

lemma migrateNestedValueWith_Suc:
  "migrateNestedValueWith leaf n v = Some r \<Longrightarrow> migrateNestedValueWith leaf (Suc n) v = Some r"
proof (induction n arbitrary: v r)
  case 0
  then show ?case by simp
next
  case (Suc n)
  have step: "\<And>v r. migrateNestedValueWith leaf n v = Some r
                \<Longrightarrow> migrateNestedValueWith leaf (Suc n) v = Some r"
    by (rule Suc.IH)
  show ?case
  proof (cases v)
    case (SomeValue inner)
    with Suc.prems obtain x where x: "migrateNestedValueWith leaf n inner = Some x"
      by (auto split: option.splits)
    from step[OF x] Suc.prems SomeValue x show ?thesis
      by (simp del: migrateNestedValueWith.simps add: migrateNestedValueWith.simps(2)[of leaf "Suc n"] migrateNestedValueWith.simps(2)[of leaf n])
  next
    case (ArrayValue es)
    with Suc.prems obtain x where
      x: "migrateArrayElements (migrateNestedValueWith leaf n) es = Some x"
      by (auto split: option.splits)
    from migrateArrayElements_mono[of "migrateNestedValueWith leaf n"
           "migrateNestedValueWith leaf (Suc n)", OF step x]
      Suc.prems ArrayValue x show ?thesis
      by (simp del: migrateNestedValueWith.simps add: migrateNestedValueWith.simps(2)[of leaf "Suc n"] migrateNestedValueWith.simps(2)[of leaf n])
  next
    case (CompositeValue ms)
    with Suc.prems obtain x where
      x: "migrateCompositeFields (migrateNestedValueWith leaf n) ms (map fst ms) = Some x"
      by (auto split: option.splits)
    from migrateCompositeFields_mono[of "migrateNestedValueWith leaf n"
           "migrateNestedValueWith leaf (Suc n)", OF step x]
      Suc.prems CompositeValue x show ?thesis
      by (simp del: migrateNestedValueWith.simps add: migrateNestedValueWith.simps(2)[of leaf "Suc n"] migrateNestedValueWith.simps(2)[of leaf n])
  next
    case (DictionaryValue es)
    with Suc.prems obtain x where
      x: "migrateDictionaryKeys (migrateNestedValueWith leaf n) es (map fst es) = Some x"
      by (auto split: option.splits)
    from migrateDictionaryKeys_mono[of "migrateNestedValueWith leaf n"
           "migrateNestedValueWith leaf (Suc n)", OF step x]
      Suc.prems DictionaryValue x show ?thesis
      by (simp del: migrateNestedValueWith.simps add: migrateNestedValueWith.simps(2)[of leaf "Suc n"] migrateNestedValueWith.simps(2)[of leaf n])
  qed (use Suc.prems in \<open>simp_all add: migrateNestedValueWith.simps(2)[of leaf "Suc n"] migrateNestedValueWith.simps(2)[of leaf n] del: migrateNestedValueWith.simps\<close>)
qed

lemma migrateNestedValueWith_mono:
  "n \<le> n' \<Longrightarrow> migrateNestedValueWith leaf n v = Some r
   \<Longrightarrow> migrateNestedValueWith leaf n' v = Some r"
  by (induction n' rule: dec_induct) (auto dest: migrateNestedValueWith_Suc)


lemma forEachStoredValue_mono:
  assumes "\<And>v a d k r. f v a d k = Some r \<Longrightarrow> g v a d k = Some r"
  shows "forEachStoredValue f addr domain stored = Some r
         \<Longrightarrow> forEachStoredValue g addr domain stored = Some r"
proof (induction stored arbitrary: r)
  case Nil
  then show ?case by simp
next
  case (Cons kv stored)
  obtain key v where kv: "kv = (key, v)" by (cases kv) auto
  with Cons.prems obtain x where x: "f v addr domain key = Some x"
    by (auto split: option.splits)
  then have gx: "g v addr domain key = Some x" by (rule assms)
  show ?case
  proof (cases x)
    case (Inl p)
    with Cons.prems kv x gx show ?thesis by simp
  next
    case (Inr y)
    with Cons.prems kv x obtain z where z: "forEachStoredValue f addr domain stored = Some z"
      by (auto split: option.splits prod.splits)
    from Cons.IH[OF z] have "forEachStoredValue g addr domain stored = Some z" .
    with Cons.prems kv x gx z Inr show ?thesis by (simp split: prod.splits)
  qed
qed

lemma AccountStorage_ForEachValue_mono:
  assumes "\<And>v a d k r. f v a d k = Some r \<Longrightarrow> g v a d k = Some r"
  shows "AccountStorage_ForEachValue f addr domains maps = Some r
         \<Longrightarrow> AccountStorage_ForEachValue g addr domains maps = Some r"
proof (induction domains arbitrary: maps r)
  case Nil
  then show ?case by simp
next
  case (Cons domain domains)
  show ?case
  proof (cases "map_of maps (addr, domain)")
    case None
    with Cons.prems Cons.IH show ?thesis by simp
  next
    case (Some stored)
    with Cons.prems obtain x where x: "forEachStoredValue f addr domain stored = Some x"
      by (auto split: option.splits)
    from forEachStoredValue_mono[of f g, OF assms x]
    have gx: "forEachStoredValue g addr domain stored = Some x" .
    show ?thesis
    proof (cases x)
      case (Inl p)
      with Cons.prems Some x gx show ?thesis by simp
    next
      case (Inr y)
      obtain stored' c where y: "y = (stored', c)" by (cases y) auto
      with Cons.prems Some x Inr obtain z where
        z: "AccountStorage_ForEachValue f addr domains
              (AList.update (addr, domain) stored' maps) = Some z"
        by (auto split: option.splits)
      from Cons.IH[OF z] Cons.prems Some x gx Inr y z show ?thesis by simp
    qed
  qed
qed

lemma migrateValuesInAccount_mono:
  assumes "n \<le> n'"
  shows "migrateValuesInAccount n addr reporter migrations state = Some r
         \<Longrightarrow> migrateValuesInAccount n' addr reporter migrations state = Some r"
proof -
  assume a: "migrateValuesInAccount n addr reporter migrations state = Some r"
  obtain storage reports where st: "state = (storage, reports)" by (cases state) auto
  let ?f = "\<lambda>val addr' domain key. migrateNestedValue n val addr' domain key migrations reporter"
  let ?g = "\<lambda>val addr' domain key. migrateNestedValue n' val addr' domain key migrations reporter"
  have fg: "\<And>v a d k r. ?f v a d k = Some r \<Longrightarrow> ?g v a d k = Some r"
    unfolding migrateNestedValue_def using migrateNestedValueWith_mono[OF assms] by blast
  from a st obtain x where
    x: "AccountStorage_ForEachValue ?f addr AllPathDomains (storageMaps storage) = Some x"
    by (auto simp: migrateValuesInAccount_def split: option.splits)
  from AccountStorage_ForEachValue_mono[of ?f ?g, OF fg x]
  have "AccountStorage_ForEachValue ?g addr AllPathDomains (storageMaps storage) = Some x" .
  with a st x show ?thesis by (simp add: migrateValuesInAccount_def)
qed

lemma perAddressPasses_mono:
  assumes "\<And>a s r. f a s = Some r \<Longrightarrow> g a s = Some r"
  shows "perAddressPasses f as state = Some r \<Longrightarrow> perAddressPasses g as state = Some r"
proof (induction as arbitrary: state r)
  case Nil
  then show ?case by simp
next
  case (Cons a as)
  from Cons.prems obtain x where x: "f a state = Some x"
    by (auto split: option.splits)
  then have gx: "g a state = Some x" by (rule assms)
  show ?case
  proof (cases x)
    case (Inl p)
    with Cons.prems x gx show ?thesis by auto
  next
    case (Inr state')
    with Cons.prems x have "perAddressPasses f as state' = Some r" by simp
    from Cons.IH[OF this] x gx Inr show ?thesis by simp
  qed
qed

text \<open>The traversal of the looping dictionary under the looping migration returns with no
  amount of fuel: the first iteration moves its entry to the other key, with the looping
  dictionary as the value, and the second iteration, for that other key, descends into
  it.\<close>

lemma loopingDictionary_no_return:
  "migrateNestedValueWith
     (\<lambda>leafValue. migrateLeaf [loopingMigration] reporter addr domain key leafValue None)
     n loopingDictionary = None"
proof (induction n)
  case 0
  then show ?case by simp
next
  case (Suc n)
  show ?case
  proof (cases n)
    case 0
    then show ?thesis by (simp add: loopingDictionary_def DictionaryValue_Get_def)
  next
    case (Suc m)
    have k1: "migrateNestedValueWith
       (\<lambda>leafValue. migrateLeaf [loopingMigration] reporter addr domain key leafValue None)
       (Suc m) (IntValue 1) =
       Some (Inr (IntValue 1, Some (IntValue 2),
                  if reporter then [Report addr domain key ''Loop''] else []))"
      by (simp add: loopingMigration_def)
    have x: "migrateNestedValueWith
       (\<lambda>leafValue. migrateLeaf [loopingMigration] reporter addr domain key leafValue None)
       (Suc m) (StringValue ''x'') =
       Some (Inr (StringValue ''x'', Some loopingDictionary,
                  if reporter then [Report addr domain key ''Loop''] else []))"
      by (simp add: loopingMigration_def)
    have k2: "migrateNestedValueWith
       (\<lambda>leafValue. migrateLeaf [loopingMigration] reporter addr domain key leafValue None)
       (Suc m) (IntValue 2) =
       Some (Inr (IntValue 2, Some (IntValue 1),
                  if reporter then [Report addr domain key ''Loop''] else []))"
      by (simp add: loopingMigration_def)
    have step: "dictionaryStep [(IntValue 1, StringValue ''x''), (IntValue 2, StringValue ''x'')]
                  (IntValue 1) (IntValue 1) (Some (IntValue 2)) (StringValue ''x'')
                  (Some loopingDictionary)
                = [(IntValue 2, loopingDictionary)]"
      by (simp add: dictionaryStep_def replaceEntry_def DictionaryValue_RemoveKey_def)
    have "migrateDictionaryKeys
            (migrateNestedValueWith
               (\<lambda>leafValue. migrateLeaf [loopingMigration] reporter addr domain key leafValue None)
               (Suc m))
            [(IntValue 1, StringValue ''x''), (IntValue 2, StringValue ''x'')]
            [IntValue 1, IntValue 2] = None"
      using k1 x k2 step Suc.IH[unfolded Suc]
      by (simp add: DictionaryValue_Get_def del: migrateNestedValueWith.simps)
    then show ?thesis
      unfolding Suc
      by (simp add: migrateNestedValueWith.simps(2)[of _ "Suc m"] loopingDictionary_def
          del: migrateNestedValueWith.simps)
  qed
qed








subsection \<open>Claim C5: relocation of a dictionary key\<close>

text \<open>
  Claim C5 (as stated): if the traversal replaces the key \<open>k1\<close> of a dictionary by
  \<open>k2\<close> and leaves its value \<open>v1\<close> unchanged, the dictionary afterwards has no entry
  for \<open>k1\<close>.  This fails when another key of the dictionary is replaced by \<open>k1\<close>: with
  the keys 1 and 0 and a migration that replaces 1 by 2 and 0 by 1, the dictionary has
  an entry for the key 1 after the traversal.
\<close>

theorem C5_dictionary_key_relocation_counterexample:
  "DictionaryValue_Get [(IntValue 1, StringValue ''v1''), (IntValue 0, StringValue ''v0'')]
     (IntValue 1) = Some (StringValue ''v1'')
   \<and> migrateNestedValue 1 (IntValue 1) 1 PathDomainStorage ''foo'' [shiftMigration] True
       = Some (Inr (IntValue 1, Some (IntValue 2), [Report 1 PathDomainStorage ''foo'' ''Shift'']))
   \<and> migrateNestedValue 1 (StringValue ''v1'') 1 PathDomainStorage ''foo'' [shiftMigration] True
       = Some (Inr (StringValue ''v1'', None, []))
   \<and> migrateNestedValue 2
        (DictionaryValue [(IntValue 1, StringValue ''v1''), (IntValue 0, StringValue ''v0'')])
        1 PathDomainStorage ''foo'' [shiftMigration] True
       = Some (Inr (DictionaryValue [(IntValue 2, StringValue ''v1''),
                                     (IntValue 1, StringValue ''v0'')],
                    None,
                    [Report 1 PathDomainStorage ''foo'' ''Shift'',
                     Report 1 PathDomainStorage ''foo'' ''Shift'']))
   \<and> DictionaryValue_Get [(IntValue 2, StringValue ''v1''), (IntValue 1, StringValue ''v0'')]
        (IntValue 1) = Some (StringValue ''v0'')"
  by code_simp

text \<open>
  Claim C5 (amended): for a dictionary with distinct keys that maps \<open>k1\<close> to \<open>v1\<close>, if
  the traversal replaces \<open>k1\<close> by a different key \<open>k2\<close> and leaves \<open>v1\<close> unchanged,
  and no other key of the dictionary is \<open>k2\<close> or is turned into \<open>k1\<close> or \<open>k2\<close> by
  the traversal, then after \<open>migrateNestedValue\<close> has returned for the dictionary, the
  dictionary maps \<open>k2\<close> to \<open>v1\<close> and has no entry for \<open>k1\<close>.
\<close>

theorem C5_dictionary_key_relocation_amended:
  assumes distinct: "distinct (map fst entries)"
      and k1: "DictionaryValue_Get entries k1 = Some v1"
      and key: "migrateNestedValue n k1 addr domain key migrations reporter
                  = Some (Inr (k1, Some k2, calls1))"
      and val: "migrateNestedValue n v1 addr domain key migrations reporter
                  = Some (Inr (v1, None, calls2))"
      and ne: "k2 \<noteq> k1"
      and others: "\<forall>k\<in>set (map fst entries). k \<noteq> k1 \<longrightarrow>
                     k \<noteq> k2 \<and>
                     (\<forall>k' newKey calls'.
                        migrateNestedValue n k addr domain key migrations reporter
                          = Some (Inr (k', newKey, calls')) \<longrightarrow>
                        k' \<noteq> k1 \<and> k' \<noteq> k2 \<and> newKey \<noteq> Some k1 \<and> newKey \<noteq> Some k2)"
      and returns: "migrateNestedValue (Suc n) (DictionaryValue entries) addr domain key
                      migrations reporter = Some (Inr (dictionary', newValue, calls))"
  shows "\<exists>entries'. dictionary' = DictionaryValue entries'
           \<and> DictionaryValue_Get entries' k2 = Some v1
           \<and> DictionaryValue_Get entries' k1 = None"
proof -
  define nested where
    "nested = migrateNestedValueWith
       (\<lambda>leafValue. migrateLeaf migrations reporter addr domain key leafValue None) n"
  have nested_eq: "\<And>v. migrateNestedValue n v addr domain key migrations reporter = nested v"
    by (simp add: migrateNestedValue_def nested_def)
  from returns obtain entries' where
    loop: "migrateDictionaryKeys nested entries (map fst entries) = Some (Inr (entries', calls))"
    and d': "dictionary' = DictionaryValue entries'"
    by (auto simp: migrateNestedValue_def nested_def split: option.splits sum.splits)
  from k1 have "k1 \<in> set (map fst entries)"
    by (metis DictionaryValue_Get_def map_of_eq_None_iff option.distinct(1) set_map)
  then obtain pre post where split: "map fst entries = pre @ k1 # post"
    by (meson split_list)
  with distinct have notin: "k1 \<notin> set pre" "k1 \<notin> set post"
    by (metis distinct_append distinct.simps(2) disjoint_insert(1) list.simps(15) not_distinct_conv_prefix)+
  have oth: "\<And>k. k \<in> set pre \<union> set post \<Longrightarrow> k \<noteq> k1 \<and> k \<noteq> k2 \<and>
               (\<forall>k' newKey calls'. nested k = Some (Inr (k', newKey, calls')) \<longrightarrow>
                  k' \<noteq> k1 \<and> k' \<noteq> k2 \<and> newKey \<noteq> Some k1 \<and> newKey \<noteq> Some k2)"
  proof -
    fix k assume a: "k \<in> set pre \<union> set post"
    then have m: "k \<in> set (map fst entries)" unfolding split by auto
    from a notin have "k \<noteq> k1" by auto
    with others m show "k \<noteq> k1 \<and> k \<noteq> k2 \<and>
               (\<forall>k' newKey calls'. nested k = Some (Inr (k', newKey, calls')) \<longrightarrow>
                  k' \<noteq> k1 \<and> k' \<noteq> k2 \<and> newKey \<noteq> Some k1 \<and> newKey \<noteq> Some k2)"
      unfolding nested_eq by blast
  qed
  from loop split have "migrateDictionaryKeys nested entries (pre @ k1 # post)
      = Some (Inr (entries', calls))" by simp
  from migrateDictionaryKeys_append[OF this] obtain entries1 c1 c2 where
    p1: "migrateDictionaryKeys nested entries pre = Some (Inr (entries1, c1))"
    and p2: "migrateDictionaryKeys nested entries1 (k1 # post) = Some (Inr (entries', c2))"
    by blast
  have "map_of entries1 k1 = map_of entries k1"
    using migrateDictionaryKeys_other[OF _ p1, of k1] oth by blast
  with k1 have g1: "DictionaryValue_Get entries1 k1 = Some v1"
    by (simp add: DictionaryValue_Get_def)
  from key val have nk: "nested k1 = Some (Inr (k1, Some k2, calls1))"
    and nv: "nested v1 = Some (Inr (v1, None, calls2))"
    unfolding nested_eq by simp_all
  from p2 g1 nk nv obtain c3 where
    p3: "migrateDictionaryKeys nested (dictionaryStep entries1 k1 k1 (Some k2) v1 None) post
           = Some (Inr (entries', c3))"
    by (auto split: option.splits sum.splits)
  have e2: "map_of entries' k2 = map_of (dictionaryStep entries1 k1 k1 (Some k2) v1 None) k2"
    using migrateDictionaryKeys_other[OF _ p3, of k2] oth by blast
  have e1: "map_of entries' k1 = map_of (dictionaryStep entries1 k1 k1 (Some k2) v1 None) k1"
    using migrateDictionaryKeys_other[OF _ p3, of k1] oth by blast
  from e1 e2 dictionaryStep_moved[OF ne, of entries1 v1] d'
  show ?thesis by (simp add: DictionaryValue_Get_def)
qed

text \<open>Witness for C5: a dictionary with the keys 1 and 7 under the migration \<open>A\<close>; the
  value under 7 is an array that is migrated in place.\<close>

theorem C5_dictionary_key_relocation_amended_witness:
  "distinct (map fst [(IntValue 1, StringValue ''v1''), (IntValue 7, ArrayValue [IntValue 1])])
   \<and> DictionaryValue_Get [(IntValue 1, StringValue ''v1''), (IntValue 7, ArrayValue [IntValue 1])]
        (IntValue 1) = Some (StringValue ''v1'')
   \<and> migrateNestedValue 2 (IntValue 1) 1 PathDomainStorage ''foo'' [migrationA] True
        = Some (Inr (IntValue 1, Some (IntValue 2), [Report 1 PathDomainStorage ''foo'' ''A'']))
   \<and> migrateNestedValue 2 (StringValue ''v1'') 1 PathDomainStorage ''foo'' [migrationA] True
        = Some (Inr (StringValue ''v1'', None, []))
   \<and> migrateNestedValue 3
        (DictionaryValue [(IntValue 1, StringValue ''v1''), (IntValue 7, ArrayValue [IntValue 1])])
        1 PathDomainStorage ''foo'' [migrationA] True
        = Some (Inr (DictionaryValue [(IntValue 7, ArrayValue [IntValue 2]),
                                      (IntValue 2, StringValue ''v1'')],
                     None,
                     [Report 1 PathDomainStorage ''foo'' ''A'',
                      Report 1 PathDomainStorage ''foo'' ''A'']))
   \<and> DictionaryValue_Get [(IntValue 7, ArrayValue [IntValue 2]), (IntValue 2, StringValue ''v1'')]
        (IntValue 2) = Some (StringValue ''v1'')
   \<and> DictionaryValue_Get [(IntValue 7, ArrayValue [IntValue 2]), (IntValue 2, StringValue ''v1'')]
        (IntValue 1) = None"
proof -
  let ?entries = "[(IntValue 1, StringValue ''v1''), (IntValue 7, ArrayValue [IntValue 1])]"
  let ?entries' = "[(IntValue 7, ArrayValue [IntValue 2]), (IntValue 2, StringValue ''v1'')]"
  have d: "distinct (map fst ?entries)" by simp
  have g: "DictionaryValue_Get ?entries (IntValue 1) = Some (StringValue ''v1'')"
    by (simp add: DictionaryValue_Get_def)
  have k: "migrateNestedValue 2 (IntValue 1) 1 PathDomainStorage ''foo'' [migrationA] True
        = Some (Inr (IntValue 1, Some (IntValue 2), [Report 1 PathDomainStorage ''foo'' ''A'']))"
    by code_simp
  have v: "migrateNestedValue 2 (StringValue ''v1'') 1 PathDomainStorage ''foo'' [migrationA] True
        = Some (Inr (StringValue ''v1'', None, []))"
    by code_simp
  have ne: "IntValue 2 \<noteq> IntValue 1" by simp
  have k7: "migrateNestedValue 2 (IntValue 7) 1 PathDomainStorage ''foo'' [migrationA] True
        = Some (Inr (IntValue 7, None, []))"
    by code_simp
  have o: "\<forall>k\<in>set (map fst ?entries). k \<noteq> IntValue 1 \<longrightarrow>
                     k \<noteq> IntValue 2 \<and>
                     (\<forall>k' newKey calls'.
                        migrateNestedValue 2 k 1 PathDomainStorage ''foo'' [migrationA] True
                          = Some (Inr (k', newKey, calls')) \<longrightarrow>
                        k' \<noteq> IntValue 1 \<and> k' \<noteq> IntValue 2
                        \<and> newKey \<noteq> Some (IntValue 1) \<and> newKey \<noteq> Some (IntValue 2))"
    by (simp add: k7)
  have r: "migrateNestedValue (Suc 2) (DictionaryValue ?entries)
        1 PathDomainStorage ''foo'' [migrationA] True
        = Some (Inr (DictionaryValue ?entries', None,
                     [Report 1 PathDomainStorage ''foo'' ''A'',
                      Report 1 PathDomainStorage ''foo'' ''A'']))"
    by code_simp
  have three: "(3::nat) = Suc 2" by simp
  from C5_dictionary_key_relocation_amended [OF d g k v ne o r] d g k v r
  show ?thesis unfolding three by simp
qed

subsection \<open>Claim C6: migrations chain on a leaf\<close>

text \<open>
  Claim C6: for a leaf \<open>x\<close> and the migrations \<open>[A, B]\<close> in that order, if \<open>A\<close>
  replaces \<open>x\<close> by \<open>y\<close> and \<open>B\<close> replaces \<open>y\<close> by \<open>z\<close>, then the traversal of \<open>x\<close>
  returns \<open>z\<close> and the reporter receives two reports for the leaf, first with the name
  of \<open>A\<close>, then with the name of \<open>B\<close>.
\<close>

theorem C6_migrations_chain:
  assumes "isLeaf x"
      and "Migration_Migrate A addr x = Some y"
      and "Migration_Migrate B addr y = Some z"
  shows "migrateNestedValue (Suc n) x addr domain key [A, B] True =
           Some (Inr (x, Some z,
                      [Report addr domain key (Migration_Name A),
                       Report addr domain key (Migration_Name B)]))"
  using assms
  by (simp add: migrateNestedValue_def migrateNestedValueWith_leaf
      del: migrateNestedValueWith.simps)

text \<open>Witness for C6: the integer 1 under the migrations \<open>A\<close> and \<open>B\<close>.\<close>

theorem C6_migrations_chain_witness:
  "isLeaf (IntValue 1)
   \<and> Migration_Migrate migrationA 1 (IntValue 1) = Some (IntValue 2)
   \<and> Migration_Migrate migrationB 1 (IntValue 2) = Some (IntValue 3)
   \<and> migrateNestedValue 1 (IntValue 1) 1 PathDomainStorage ''foo'' [migrationA, migrationB] True =
           Some (Inr (IntValue 1, Some (IntValue 3),
                      [Report 1 PathDomainStorage ''foo'' ''A'',
                       Report 1 PathDomainStorage ''foo'' ''B'']))"
proof -
  have l: "isLeaf (IntValue 1)" by simp
  have a: "Migration_Migrate migrationA 1 (IntValue 1) = Some (IntValue 2)"
    by (simp add: migrationA_def)
  have b: "Migration_Migrate migrationB 1 (IntValue 2) = Some (IntValue 3)"
    by (simp add: migrationB_def)
  from C6_migrations_chain [OF l a b, of 0 PathDomainStorage "''foo''"] l a b
  show ?thesis by (simp add: migrationA_def migrationB_def)
qed

subsection \<open>Claim C7: one pass per address, then one commit\<close>

text \<open>
  Claim C7 (as stated): for every address iterator, \<open>StorageMigration.Migrate\<close> makes one
  per-address pass for each address returned before the zero address, and then calls
  \<open>Commit\<close> once.  This fails when a pass does not return: under a migration that
  replaces a leaf by a dictionary holding that leaf again, the traversal of the value
  stored in account 1 descends without end, so with the iterator over the addresses 1
  and 2 the run does not return, whatever the fuel; there is no pass for the address 2
  and no \<open>Commit\<close>.
\<close>

theorem C7_passes_then_commit_counterexample:
  "iteratorYields sliceNextAddress [1, 2] ([1, 2] @ [ZeroAddress])
   \<and> ZeroAddress \<notin> set [1, 2]
   \<and> (\<forall>n. StorageMigration_Migrate n sliceNextAddress [1, 2] True [loopingMigration]
              (loopingStorage, []) = None)"
proof -
  have y: "iteratorYields sliceNextAddress [1, 2] ([1, 2] @ [ZeroAddress])"
    by (simp add: ZeroAddress_def)
  have z: "ZeroAddress \<notin> set [1, 2]"
    by (simp add: ZeroAddress_def)
  have nested: "\<And>n. migrateNestedValue n loopingDictionary 1 PathDomainStorage ''foo''
                       [loopingMigration] True = None"
    unfolding migrateNestedValue_def by (rule loopingDictionary_no_return)
  have pass: "\<And>n. migrateValuesInAccount n 1 True [loopingMigration] (loopingStorage, []) = None"
    by (simp add: migrateValuesInAccount_def AllPathDomains_def loopingStorage_def nested)
  have "\<And>n. StorageMigration_Migrate n sliceNextAddress [1, 2] True [loopingMigration]
              (loopingStorage, []) = None"
    unfolding StorageMigration_Migrate_def migrateAddresses_yields[OF y z]
    by (simp add: pass)
  with y z show ?thesis by blast
qed

text \<open>
  Claim C7 (amended): when the address iterator returns the addresses of a list, none
  of them the zero address, and then the zero address, and the per-address passes for
  these addresses return (with some fuel, and then with any larger fuel),
  \<open>StorageMigration.Migrate\<close> returns: the calls on the storage are one
  \<open>ForEachValue\<close> for each address of the list, in order, and then one \<open>Commit\<close>;
  there is no pass for the zero address.  If \<open>Commit\<close> returns an error the run
  panics with it.
\<close>

theorem C7_passes_then_commit:
  assumes "iteratorYields nextAddress addressIterator (as @ [ZeroAddress])"
      and "ZeroAddress \<notin> set as"
      and "perAddressPasses (\<lambda>addr. migrateValuesInAccount n addr reporter migrations) as
             (storage, reports) = Some (Inr (storage', reports'))"
      and "n \<le> n'"
  shows "StorageMigration_Migrate n' nextAddress addressIterator reporter migrations
           (storage, reports)
         = Some (case commitResult storage of
                   Some err \<Rightarrow> Inl (CommitError err)
                 | None \<Rightarrow> Inr (storage'\<lparr> storageCalls :=
                              storageCalls storage @ map ForEachValueCall as @ [CommitCall False] \<rparr>,
                            reports'))"
proof -
  have passes: "perAddressPasses (\<lambda>addr. migrateValuesInAccount n' addr reporter migrations) as
             (storage, reports) = Some (Inr (storage', reports'))"
    using perAddressPasses_mono[of "\<lambda>addr. migrateValuesInAccount n addr reporter migrations"
            "\<lambda>addr. migrateValuesInAccount n' addr reporter migrations", OF _ assms(3)]
      migrateValuesInAccount_mono[OF assms(4)] by blast
  have loop: "migrateAddresses (\<lambda>addr. migrateValuesInAccount n' addr reporter migrations)
                nextAddress addressIterator (storage, reports) = Some (Inr (storage', reports'))"
    unfolding migrateAddresses_yields[OF assms(1,2)] by (rule passes)
  from perAddressPasses_calls[OF passes] loop show ?thesis
    by (simp add: StorageMigration_Migrate_def Storage_Commit_def split: option.splits)
qed

text \<open>Witness for C7: the iterator over the addresses 1 and 2 makes two passes and one
  commit; with a failing commit the run panics.\<close>

theorem C7_passes_then_commit_witness:
  "iteratorYields sliceNextAddress [1, 2] ([1, 2] @ [ZeroAddress])
   \<and> ZeroAddress \<notin> set [1, 2]
   \<and> StorageMigration_Migrate 5 sliceNextAddress [1, 2] True [migrationA, migrationB]
         (exampleStorage, [])
       = Some (Inr (\<lparr> storageMaps =
                        [((1, PathDomainStorage), [(''foo'', SomeValue (ArrayValue [IntValue 3]))]),
                         ((2, PathDomainPublic), [(''bar'', IntValue 3)])],
                      commitResult = None,
                      storageCalls = [ForEachValueCall 1, ForEachValueCall 2, CommitCall False] \<rparr>,
                    [Report 1 PathDomainStorage ''foo'' ''A'', Report 1 PathDomainStorage ''foo'' ''B'',
                     Report 2 PathDomainPublic ''bar'' ''B'']))
   \<and> StorageMigration_Migrate 3 sliceNextAddress [1, 2] True [migrationA, migrationB]
         (exampleStorage\<lparr> commitResult := Some ''commit failed'' \<rparr>, [])
       = Some (Inl (CommitError ''commit failed''))"
proof -
  have y: "iteratorYields sliceNextAddress [1, 2] ([1, 2] @ [ZeroAddress])"
    by (simp add: ZeroAddress_def)
  have z: "ZeroAddress \<notin> set [1, 2]"
    by (simp add: ZeroAddress_def)
  have p: "perAddressPasses (\<lambda>addr. migrateValuesInAccount 3 addr True [migrationA, migrationB])
             [1, 2] (exampleStorage, []) =
     Some (Inr (\<lparr> storageMaps =
                    [((1, PathDomainStorage), [(''foo'', SomeValue (ArrayValue [IntValue 3]))]),
                     ((2, PathDomainPublic), [(''bar'', IntValue 3)])],
                  commitResult = None,
                  storageCalls = [ForEachValueCall 1, ForEachValueCall 2] \<rparr>,
                [Report 1 PathDomainStorage ''foo'' ''A'', Report 1 PathDomainStorage ''foo'' ''B'',
                 Report 2 PathDomainPublic ''bar'' ''B'']))"
    by code_simp
  have q: "perAddressPasses (\<lambda>addr. migrateValuesInAccount 3 addr True [migrationA, migrationB])
             [1, 2] (exampleStorage\<lparr> commitResult := Some ''commit failed'' \<rparr>, []) =
     Some (Inr (\<lparr> storageMaps =
                    [((1, PathDomainStorage), [(''foo'', SomeValue (ArrayValue [IntValue 3]))]),
                     ((2, PathDomainPublic), [(''bar'', IntValue 3)])],
                  commitResult = Some ''commit failed'',
                  storageCalls = [ForEachValueCall 1, ForEachValueCall 2] \<rparr>,
                [Report 1 PathDomainStorage ''foo'' ''A'', Report 1 PathDomainStorage ''foo'' ''B'',
                 Report 2 PathDomainPublic ''bar'' ''B'']))"
    by code_simp
  have le: "(3::nat) \<le> 5" by simp
  from C7_passes_then_commit [OF y z p le] C7_passes_then_commit [OF y z q order_refl] y z
  show ?thesis by (simp add: exampleStorage_def)
qed

subsection \<open>Claim C8: a migration without a result for a leaf\<close>




end
